theory Spec2Isabelle
  imports Main "HOL-Library.Log_Nat"
begin

section \<open>Retail backend: values, documents and the store\<close>

text \<open>
  The program verified here is the Express application of the retail backend (the file with
  the hybrid storage configuration and the route \<^verbatim>\<open>/api/products/:id/reduce-stock\<close>).
  Its route handlers are embedded as functions from a request and the store to the new store
  and the response.
\<close>

subsection \<open>Numbers\<close>

text \<open>
  A JavaScript Number is a double: \<^verbatim>\<open>NaN\<close>, an infinity, or a finite value, kept here as the
  rational it denotes (the two zeros are one value: no handler tells them apart). Arithmetic
  on doubles rounds: the result of a subtraction is the double nearest to the exact
  difference, the even one of two that are equally near, and an infinity beyond the largest
  double.
\<close>

type_synonym oid = nat

datatype number = NaN | NegInf | Fin rat | PosInf

definition round_half_even :: "rat \<Rightarrow> int" where
  "round_half_even x =
     (let n = \<lfloor>x\<rfloor>; r = x - of_int n
      in if r < 1 / 2 then n else if 1 / 2 < r then n + 1 else if even n then n else n + 1)"

text \<open>The binary exponent of a positive rational \<open>a\<close>: the \<open>e\<close> with \<open>2\<^sup>e \<le> a < 2\<^sup>e\<^sup>+\<^sup>1\<close>.\<close>

definition exponent :: "rat \<Rightarrow> int" where
  "exponent a = (if 1 \<le> a then bitlen \<lfloor>a\<rfloor> - 1 else - bitlen (\<lceil>1 / a\<rceil> - 1))"

text \<open>
  Rounding to a double: 53 significant bits, the smallest exponent that of the subnormal
  numbers, overflow at \<open>2\<^sup>1\<^sup>0\<^sup>2\<^sup>4\<close>.
\<close>

definition round_double :: "rat \<Rightarrow> number" where
  "round_double x =
     (if x = 0 then Fin 0
      else let a = \<bar>x\<bar>;
               ulp = 2 powi (max (exponent a) (- 1022) - 52);
               m = of_int (round_half_even (a / ulp)) * ulp
           in if 2 ^ 1024 \<le> m then (if x < 0 then NegInf else PosInf)
              else Fin (if x < 0 then - m else m))"

definition representable :: "rat \<Rightarrow> bool" where
  "representable x = (round_double x = Fin x)"

text \<open>\<^verbatim>\<open>a >= b\<close> and \<^verbatim>\<open>a - b\<close> on Numbers.\<close>

fun num_ge :: "number \<Rightarrow> number \<Rightarrow> bool" where
  "num_ge NaN b = False"
| "num_ge a NaN = False"
| "num_ge PosInf b = True"
| "num_ge a NegInf = True"
| "num_ge (Fin x) (Fin y) = (y \<le> x)"
| "num_ge a b = False"

fun num_sub :: "number \<Rightarrow> number \<Rightarrow> number" where
  "num_sub NaN b = NaN"
| "num_sub a NaN = NaN"
| "num_sub PosInf PosInf = NaN"
| "num_sub PosInf b = PosInf"
| "num_sub NegInf NegInf = NaN"
| "num_sub NegInf b = NegInf"
| "num_sub (Fin x) PosInf = NegInf"
| "num_sub (Fin x) NegInf = PosInf"
| "num_sub (Fin x) (Fin y) = round_double (x - y)"

definition nonneg :: "number \<Rightarrow> bool" where
  "nonneg x = (case x of NaN \<Rightarrow> False | NegInf \<Rightarrow> False | Fin r \<Rightarrow> 0 \<le> r | PosInf \<Rightarrow> True)"

subsection \<open>Requests\<close>

text \<open>
  A field of \<^verbatim>\<open>req.body\<close> is absent (\<^verbatim>\<open>undefined\<close>) or a scalar: \<^verbatim>\<open>null\<close>, a boolean, a number or
  a string (a multipart form sends strings, a JSON body any of them). Arrays and objects as
  field values are outside this model.
\<close>

datatype jsval = Undefined | Null | Bool bool | Num number | Str string

text \<open>
  What a handler reads besides the request and the store. The deployment flag
  \<^verbatim>\<open>isVercel\<close>; the clock \<^verbatim>\<open>Date.now\<close>; the salt drawn by \<^verbatim>\<open>bcrypt.hash\<close>; and the conversions
  of the language and of the persistence layer, which are taken as they are, so that every
  theorem below holds whatever they compute: the number a non-empty string converts to, the
  string a number is written as, the date a non-empty string is cast to, the ObjectId (if any)
  that a value sent as \<^verbatim>\<open>_id\<close> is cast to, and whether the \<^verbatim>\<open>enum\<close> validator lets \<^verbatim>\<open>null\<close> pass.
\<close>

record env =
  isVercel :: bool
  now :: int
  salt :: nat
  StringToNumber :: "string \<Rightarrow> number"
  NumberToString :: "number \<Rightarrow> string"
  StringToDate :: "string \<Rightarrow> int option"
  ValueToObjectId :: "jsval \<Rightarrow> oid option"
  enumAcceptsNull :: bool

text \<open>
  The route parameter \<^verbatim>\<open>:id\<close> is a string; the persistence layer casts it to an ObjectId and
  raises a cast error when it is not one.
\<close>

datatype idparam = Oid oid | BadId string

record upload =
  path :: string
  filename :: string

record request =
  authorization :: "string option"
  params_id :: idparam
  body :: "string \<Rightarrow> jsval"
  req_file :: "upload option"

subsection \<open>Documents\<close>

text \<open>
  The three schemas. A String path can hold \<^verbatim>\<open>null\<close> (\<open>None\<close>), which an update can write.
  The paths \<^verbatim>\<open>createdAt\<close> and \<^verbatim>\<open>updatedAt\<close> of a product are left out: no handler modelled
  here reads them.
\<close>

datatype pwhash = Bcrypt nat string

record user =
  username :: "string option"
  password :: pwhash
  role :: "string option"

record product =
  nama :: "string option"
  harga :: number
  stok :: number
  gambar :: string

record transaction =
  namaBuah :: "string option"
  jumlah :: "number option"
  totalHarga :: "number option"
  tanggal :: "int option"

text \<open>
  A collection is a list of documents with their ids, newest first. \<open>next_oid\<close> is the
  source of fresh ObjectIds.
\<close>

record store =
  users :: "(oid \<times> user) list"
  products :: "(oid \<times> product) list"
  transactions :: "(oid \<times> transaction) list"
  next_oid :: oid

datatype error =
  ValidationError | CastError | DuplicateKey | DocumentNotFoundError | IllegalArguments

text \<open>
  A response is a status with a JSON body. \<open>Message\<close> is a message written in the handler,
  \<open>ErrorMessage\<close> is \<^verbatim>\<open>err.message\<close> of a caught error. \<open>Unhandled\<close> is a rejection that
  no \<^verbatim>\<open>try\<close> of the handler catches.
\<close>

datatype json =
  Message string
| ErrorMessage error
| ProductJson "product option"
| StockJson string number
| TransactionJson transaction
| UserJson "user option"

datatype response = Response nat json | Unhandled error

subsection \<open>The persistence layer\<close>

definition findById :: "(oid \<times> 'a) list \<Rightarrow> oid \<Rightarrow> 'a option" where
  "findById docs i = map_of docs i"

definition insertDoc :: "oid \<Rightarrow> 'a \<Rightarrow> (oid \<times> 'a) list \<Rightarrow> (oid \<times> 'a) list" where
  "insertDoc i d docs = (i, d) # docs"

definition replaceDoc :: "oid \<Rightarrow> 'a \<Rightarrow> (oid \<times> 'a) list \<Rightarrow> (oid \<times> 'a) list" where
  "replaceDoc i d docs = map (\<lambda>(j, x). if j = i then (j, d) else (j, x)) docs"

definition deleteDoc :: "oid \<Rightarrow> (oid \<times> 'a) list \<Rightarrow> (oid \<times> 'a) list" where
  "deleteDoc i docs = filter (\<lambda>(j, x). j \<noteq> i) docs"

definition castObjectId :: "idparam \<Rightarrow> error + oid" where
  "castObjectId p = (case p of Oid i \<Rightarrow> Inr i | BadId s \<Rightarrow> Inl CastError)"

text \<open>
  \<^verbatim>\<open>Number(x)\<close> of JavaScript, which is also the conversion that \<^verbatim>\<open>>=\<close> and \<^verbatim>\<open>-=\<close> apply to an
  operand: \<^verbatim>\<open>undefined\<close> is \<^verbatim>\<open>NaN\<close>; \<^verbatim>\<open>null\<close>, \<^verbatim>\<open>false\<close> and the empty string are 0.
\<close>

definition Number :: "env \<Rightarrow> jsval \<Rightarrow> number" where
  "Number e v =
     (case v of
        Undefined \<Rightarrow> NaN
      | Null \<Rightarrow> Fin 0
      | Bool b \<Rightarrow> Fin (if b then 1 else 0)
      | Num x \<Rightarrow> x
      | Str s \<Rightarrow> if s = [] then Fin 0 else StringToNumber e s)"

text \<open>
  The casts of the schema types. A String path takes a string as it is and writes a number
  or a boolean as a string; \<^verbatim>\<open>undefined\<close> and \<^verbatim>\<open>null\<close> give no string. A Number path rejects
  \<^verbatim>\<open>NaN\<close>; given a string, it reads the empty string as \<^verbatim>\<open>null\<close> and any other string through
  the conversion to a number. A Date path takes a finite number within the range of a Date as
  milliseconds since the epoch, cut to an integer, rejects a boolean, and reads a string like
  a Number path does.
\<close>

definition castString :: "env \<Rightarrow> jsval \<Rightarrow> string option" where
  "castString e v =
     (case v of
        Undefined \<Rightarrow> None
      | Null \<Rightarrow> None
      | Bool b \<Rightarrow> Some (if b then ''true'' else ''false'')
      | Num x \<Rightarrow> Some (NumberToString e x)
      | Str s \<Rightarrow> Some s)"

definition castNumber :: "number \<Rightarrow> error + number" where
  "castNumber x = (if x = NaN then Inl CastError else Inr x)"

definition castNumberField :: "env \<Rightarrow> jsval \<Rightarrow> error + number option" where
  "castNumberField e v =
     (case v of
        Undefined \<Rightarrow> Inr None
      | Null \<Rightarrow> Inr None
      | Bool b \<Rightarrow> Inr (Some (Fin (if b then 1 else 0)))
      | Num x \<Rightarrow> map_sum id Some (castNumber x)
      | Str s \<Rightarrow> if s = [] then Inr None else map_sum id Some (castNumber (StringToNumber e s)))"

definition ToInteger :: "rat \<Rightarrow> int" where
  "ToInteger r = (if r < 0 then \<lceil>r\<rceil> else \<lfloor>r\<rfloor>)"

definition castDateField :: "env \<Rightarrow> jsval \<Rightarrow> error + int option" where
  "castDateField e v =
     (case v of
        Undefined \<Rightarrow> Inr None
      | Null \<Rightarrow> Inr None
      | Bool b \<Rightarrow> Inl CastError
      | Num x \<Rightarrow>
          (case x of
             Fin r \<Rightarrow> if \<bar>r\<bar> \<le> 8640000000000000 then Inr (Some (ToInteger r)) else Inl CastError
           | _ \<Rightarrow> Inl CastError)
      | Str s \<Rightarrow>
          if s = [] then Inr None
          else (case StringToDate e s of None \<Rightarrow> Inl CastError | Some t \<Rightarrow> Inr (Some t)))"

section \<open>Catalog: the product routes\<close>

text \<open>
  \<^verbatim>\<open>new Product({ nama, harga: Number(harga), stok: Number(stok), gambar })\<close> followed by
  \<^verbatim>\<open>save()\<close>: the schema requires \<open>nama\<close> (a required String path rejects \<^verbatim>\<open>null\<close> and the
  empty string), \<open>harga\<close> and \<open>stok\<close> (a Number path rejects \<^verbatim>\<open>NaN\<close>). The schema has no \<^verbatim>\<open>min\<close>
  on either number.
\<close>

definition validName :: "string option \<Rightarrow> bool" where
  "validName n = (case n of None \<Rightarrow> False | Some name \<Rightarrow> name \<noteq> [])"

definition validateProduct :: "env \<Rightarrow> jsval \<Rightarrow> number \<Rightarrow> number \<Rightarrow> string \<Rightarrow> error + product" where
  "validateProduct e n h s g =
     (if \<not> validName (castString e n) then Inl ValidationError
      else (case castNumber h of
              Inl err \<Rightarrow> Inl ValidationError
            | Inr price \<Rightarrow>
                (case castNumber s of
                   Inl err \<Rightarrow> Inl ValidationError
                 | Inr stock \<Rightarrow>
                     Inr \<lparr>nama = castString e n, harga = price, stok = stock, gambar = g\<rparr>)))"

definition uploaded :: "env \<Rightarrow> upload \<Rightarrow> string" where
  "uploaded e f = (if isVercel e then path f else filename f)"

definition create_product :: "env \<Rightarrow> request \<Rightarrow> store \<Rightarrow> store \<times> response" where
  "create_product e req db =
     (let n = body req ''nama''; h = body req ''harga''; s = body req ''stok'';
          g = (case req_file req of Some f \<Rightarrow> uploaded e f | None \<Rightarrow> [])
      in case validateProduct e n (Number e h) (Number e s) g of
           Inl err \<Rightarrow> (db, Response 400 (ErrorMessage err))
         | Inr newProduct \<Rightarrow>
             (db\<lparr>products := insertDoc (next_oid db) newProduct (products db),
                 next_oid := Suc (next_oid db)\<rparr>,
              Response 201 (ProductJson (Some newProduct))))"

text \<open>
  \<^verbatim>\<open>updateData = { nama, harga: Number(harga), stok: Number(stok) }\<close>, with \<open>gambar\<close> added
  only when a file was uploaded. \<^verbatim>\<open>findByIdAndUpdate\<close> casts the id and the update (a key
  whose value is \<^verbatim>\<open>undefined\<close> is dropped, \<^verbatim>\<open>NaN\<close> on a Number path is a cast error), runs no
  validator, sets the remaining keys on the document and returns the updated document, or
  \<^verbatim>\<open>null\<close> when no document has the id.
\<close>

record updateData =
  set_nama :: jsval
  set_harga :: number
  set_stok :: number
  set_gambar :: "string option"

definition applyUpdate :: "env \<Rightarrow> jsval \<Rightarrow> number \<Rightarrow> number \<Rightarrow> string option \<Rightarrow> product \<Rightarrow> product" where
  "applyUpdate e n h s g p =
     \<lparr>nama = (if n = Undefined then nama p else castString e n),
      harga = h, stok = s,
      gambar = (case g of None \<Rightarrow> gambar p | Some ref \<Rightarrow> ref)\<rparr>"

definition findByIdAndUpdate ::
  "env \<Rightarrow> idparam \<Rightarrow> updateData \<Rightarrow> store \<Rightarrow> error + store \<times> product option" where
  "findByIdAndUpdate e p u db =
     (case castObjectId p of
        Inl err \<Rightarrow> Inl err
      | Inr i \<Rightarrow>
          (case castNumber (set_harga u) of
             Inl err \<Rightarrow> Inl err
           | Inr h \<Rightarrow>
               (case castNumber (set_stok u) of
                  Inl err \<Rightarrow> Inl err
                | Inr s \<Rightarrow>
                    (case findById (products db) i of
                       None \<Rightarrow> Inr (db, None)
                     | Some doc \<Rightarrow>
                         (let doc' = applyUpdate e (set_nama u) h s (set_gambar u) doc
                          in Inr (db\<lparr>products := replaceDoc i doc' (products db)\<rparr>,
                                  Some doc'))))))"

definition update_product :: "env \<Rightarrow> request \<Rightarrow> store \<Rightarrow> store \<times> response" where
  "update_product e req db =
     (let n = body req ''nama''; h = body req ''harga''; s = body req ''stok'';
          u = \<lparr>set_nama = n, set_harga = Number e h, set_stok = Number e s,
               set_gambar = (case req_file req of Some f \<Rightarrow> Some (uploaded e f) | None \<Rightarrow> None)\<rparr>
      in case findByIdAndUpdate e (params_id req) u db of
           Inl err \<Rightarrow> (db, Response 400 (ErrorMessage err))
         | Inr (db', updated) \<Rightarrow> (db', Response 200 (ProductJson updated)))"

definition delete_product :: "env \<Rightarrow> request \<Rightarrow> store \<Rightarrow> store \<times> response" where
  "delete_product e req db =
     (case castObjectId (params_id req) of
        Inl err \<Rightarrow> (db, Response 500 (ErrorMessage err))
      | Inr i \<Rightarrow>
          (db\<lparr>products := deleteDoc i (products db)\<rparr>, Response 200 (Message ''Produk dihapus'')))"

subsection \<open>Stock reduction\<close>

text \<open>
  The handler awaits twice. First \<^verbatim>\<open>Product.findById\<close>: a read of the store, giving the
  document as it is at that moment or \<^verbatim>\<open>null\<close>. Then, when
  \<^verbatim>\<open>product && product.stok >= req.body.quantity\<close>, it subtracts on its own copy and awaits
  \<^verbatim>\<open>product.save()\<close>.

  \<^verbatim>\<open>save()\<close> of a loaded document first validates the copy: a difference that is \<^verbatim>\<open>NaN\<close> was
  refused by the Number path, and the required \<open>nama\<close> must hold a non-empty string (an update
  may have emptied it, since updates run no validator). It then sets the changed path \<open>stok\<close>
  of the stored document to the copy's value and fails when the document is gone; when the
  subtraction changed nothing, there is no path to write and it only checks that the document
  is there.
\<close>

definition reduce_stock_find :: "request \<Rightarrow> store \<Rightarrow> error + (oid \<times> product) option" where
  "reduce_stock_find req db =
     (case castObjectId (params_id req) of
        Inl err \<Rightarrow> Inl err
      | Inr i \<Rightarrow>
          (case findById (products db) i of
             None \<Rightarrow> Inr None
           | Some doc \<Rightarrow> Inr (Some (i, doc))))"

definition save_stok :: "oid \<Rightarrow> product \<Rightarrow> number \<Rightarrow> store \<Rightarrow> error + store" where
  "save_stok i loaded v db =
     (if v = NaN \<or> \<not> validName (nama loaded) then Inl ValidationError
      else (case findById (products db) i of
              None \<Rightarrow> Inl DocumentNotFoundError
            | Some cur \<Rightarrow>
                if v = stok loaded then Inr db
                else Inr (db\<lparr>products := replaceDoc i (cur\<lparr>stok := v\<rparr>) (products db)\<rparr>)))"

definition reduce_stock_apply ::
  "env \<Rightarrow> request \<Rightarrow> (oid \<times> product) option \<Rightarrow> store \<Rightarrow> store \<times> response" where
  "reduce_stock_apply e req found db =
     (case found of
        None \<Rightarrow> (db, Response 400 (Message ''Stok tidak cukup''))
      | Some (i, product) \<Rightarrow>
          (let quantity = Number e (body req ''quantity'') in
           if num_ge (stok product) quantity then
             (case save_stok i product (num_sub (stok product) quantity) db of
                Inl err \<Rightarrow> (db, Response 500 (ErrorMessage err))
              | Inr db' \<Rightarrow>
                  (db', Response 200
                     (StockJson ''Stok dikurangi'' (num_sub (stok product) quantity))))
           else (db, Response 400 (Message ''Stok tidak cukup''))))"

definition reduce_stock :: "env \<Rightarrow> request \<Rightarrow> store \<Rightarrow> store \<times> response" where
  "reduce_stock e req db =
     (case reduce_stock_find req db of
        Inl err \<Rightarrow> (db, Response 500 (ErrorMessage err))
      | Inr found \<Rightarrow> reduce_stock_apply e req found db)"

section \<open>Ledger: recording a sale\<close>

text \<open>
  \<^verbatim>\<open>new Transaction(req.body)\<close> followed by \<^verbatim>\<open>save()\<close>. The document takes from the body the
  four paths of the schema and \<^verbatim>\<open>_id\<close>; no path is required and none has a validator. Each
  field is cast to the type of its path, \<open>tanggal\<close> takes the default \<^verbatim>\<open>Date.now\<close> when the body
  does not carry it, and \<^verbatim>\<open>_id\<close> is a fresh ObjectId when the body does not carry it. A failed
  cast is reported by \<^verbatim>\<open>save()\<close> as a validation error; an \<^verbatim>\<open>_id\<close> already in the collection
  makes the insert fail.
\<close>

definition transaction_id :: "env \<Rightarrow> (string \<Rightarrow> jsval) \<Rightarrow> store \<Rightarrow> error + oid" where
  "transaction_id e b db =
     (if b ''_id'' = Undefined then Inr (next_oid db)
      else (case ValueToObjectId e (b ''_id'') of
              None \<Rightarrow> Inl ValidationError
            | Some i \<Rightarrow>
                if i \<in> set (map fst (transactions db)) then Inl DuplicateKey else Inr i))"

definition validateTransaction :: "env \<Rightarrow> (string \<Rightarrow> jsval) \<Rightarrow> error + transaction" where
  "validateTransaction e b =
     (case castNumberField e (b ''jumlah'') of
        Inl err \<Rightarrow> Inl ValidationError
      | Inr j \<Rightarrow>
          (case castNumberField e (b ''totalHarga'') of
             Inl err \<Rightarrow> Inl ValidationError
           | Inr t \<Rightarrow>
               (case castDateField e (b ''tanggal'') of
                  Inl err \<Rightarrow> Inl ValidationError
                | Inr d \<Rightarrow>
                    Inr \<lparr>namaBuah = castString e (b ''namaBuah''), jumlah = j, totalHarga = t,
                         tanggal = (if b ''tanggal'' = Undefined then Some (now e) else d)\<rparr>)))"

definition record_sale :: "env \<Rightarrow> request \<Rightarrow> store \<Rightarrow> store \<times> response" where
  "record_sale e req db =
     (case validateTransaction e (body req) of
        Inl err \<Rightarrow> (db, Response 500 (ErrorMessage err))
      | Inr trx \<Rightarrow>
          (case transaction_id e (body req) db of
             Inl err \<Rightarrow> (db, Response 500 (ErrorMessage err))
           | Inr i \<Rightarrow>
               (db\<lparr>transactions := insertDoc i trx (transactions db),
                   next_oid := Suc (max i (next_oid db))\<rparr>,
                Response 201 (TransactionJson trx))))"

section \<open>Credentials: the user routes\<close>

text \<open>
  \<^verbatim>\<open>bcrypt.hash(password, 10)\<close> hashes a string with a fresh salt and rejects any other
  argument. The hash is kept symbolic: the salt and the password it was made from.
\<close>

definition bcrypt_hash :: "env \<Rightarrow> jsval \<Rightarrow> error + pwhash" where
  "bcrypt_hash e v = (case v of Str s \<Rightarrow> Inr (Bcrypt (salt e) s) | _ \<Rightarrow> Inl IllegalArguments)"

text \<open>
  The User schema: \<open>username\<close> required and unique, \<open>password\<close> required, \<open>role\<close> one of
  \<^verbatim>\<open>admin\<close> and \<^verbatim>\<open>staff\<close> with the default \<^verbatim>\<open>staff\<close> for a role that is \<^verbatim>\<open>undefined\<close>. The unique
  index makes the insert of a second document with a stored username fail.
\<close>

definition validateRole :: "env \<Rightarrow> jsval \<Rightarrow> error + string option" where
  "validateRole e r =
     (if r = Undefined then Inr (Some ''staff'')
      else (case castString e r of
              None \<Rightarrow> if enumAcceptsNull e then Inr None else Inl ValidationError
            | Some ro \<Rightarrow>
                if ro = ''admin'' \<or> ro = ''staff'' then Inr (Some ro) else Inl ValidationError))"

definition validateUser :: "env \<Rightarrow> jsval \<Rightarrow> pwhash \<Rightarrow> jsval \<Rightarrow> error + user" where
  "validateUser e n h r =
     (if \<not> validName (castString e n) then Inl ValidationError
      else (case validateRole e r of
              Inl err \<Rightarrow> Inl err
            | Inr ro \<Rightarrow> Inr \<lparr>username = castString e n, password = h, role = ro\<rparr>))"

definition username_taken :: "string option \<Rightarrow> (oid \<times> user) list \<Rightarrow> bool" where
  "username_taken name docs = list_ex (\<lambda>(i, u). username u = name) docs"

definition insertUser :: "user \<Rightarrow> store \<Rightarrow> error + store" where
  "insertUser u db =
     (if username_taken (username u) (users db) then Inl DuplicateKey
      else Inr (db\<lparr>users := insertDoc (next_oid db) u (users db),
                    next_oid := Suc (next_oid db)\<rparr>))"

definition register :: "env \<Rightarrow> request \<Rightarrow> store \<Rightarrow> store \<times> response" where
  "register e req db =
     (case bcrypt_hash e (body req ''password'') of
        Inl err \<Rightarrow> (db, Response 400 (Message ''Username sudah ada''))
      | Inr hashedPassword \<Rightarrow>
          (case validateUser e (body req ''username'') hashedPassword (body req ''role'') of
             Inl err \<Rightarrow> (db, Response 400 (Message ''Username sudah ada''))
           | Inr u \<Rightarrow>
               (case insertUser u db of
                  Inl err \<Rightarrow> (db, Response 400 (Message ''Username sudah ada''))
                | Inr db' \<Rightarrow> (db', Response 201 (Message ''User berhasil dibuat'')))))"

text \<open>
  \<^verbatim>\<open>updateData = { username, role }\<close>, with the hash of \<open>password\<close> added when
  \<^verbatim>\<open>password\<close> is truthy. The update runs no validator; the unique index still rejects a
  username that another document holds.
\<close>

definition truthy :: "jsval \<Rightarrow> bool" where
  "truthy v =
     (case v of
        Undefined \<Rightarrow> False
      | Null \<Rightarrow> False
      | Bool b \<Rightarrow> b
      | Num x \<Rightarrow> x \<noteq> NaN \<and> x \<noteq> Fin 0
      | Str s \<Rightarrow> s \<noteq> [])"

definition applyUserUpdate :: "env \<Rightarrow> jsval \<Rightarrow> jsval \<Rightarrow> pwhash option \<Rightarrow> user \<Rightarrow> user" where
  "applyUserUpdate e n r h u =
     \<lparr>username = (if n = Undefined then username u else castString e n),
      password = (case h of None \<Rightarrow> password u | Some hashed \<Rightarrow> hashed),
      role = (if r = Undefined then role u else castString e r)\<rparr>"

definition findUserByIdAndUpdate ::
  "env \<Rightarrow> idparam \<Rightarrow> jsval \<Rightarrow> jsval \<Rightarrow> pwhash option \<Rightarrow> store \<Rightarrow> error + store \<times> user option" where
  "findUserByIdAndUpdate e p n r h db =
     (case castObjectId p of
        Inl err \<Rightarrow> Inl err
      | Inr i \<Rightarrow>
          (case findById (users db) i of
             None \<Rightarrow> Inr (db, None)
           | Some doc \<Rightarrow>
               (let doc' = applyUserUpdate e n r h doc
                in if n \<noteq> Undefined
                      \<and> username_taken (username doc') (deleteDoc i (users db))
                   then Inl DuplicateKey
                   else Inr (db\<lparr>users := replaceDoc i doc' (users db)\<rparr>, Some doc'))))"

definition update_user :: "env \<Rightarrow> request \<Rightarrow> store \<Rightarrow> store \<times> response" where
  "update_user e req db =
     (let pw = body req ''password'' in
      case (if truthy pw then map_sum id Some (bcrypt_hash e pw) else Inr None) of
        Inl err \<Rightarrow> (db, Response 400 (ErrorMessage err))
      | Inr h \<Rightarrow>
          (case findUserByIdAndUpdate e (params_id req) (body req ''username'') (body req ''role'') h db of
             Inl err \<Rightarrow> (db, Response 400 (ErrorMessage err))
           | Inr (db', u) \<Rightarrow> (db', Response 200 (UserJson u))))"

definition delete_user :: "env \<Rightarrow> request \<Rightarrow> store \<Rightarrow> store \<times> response" where
  "delete_user e req db =
     (case castObjectId (params_id req) of
        Inl err \<Rightarrow> (db, Unhandled err)
      | Inr i \<Rightarrow>
          (db\<lparr>users := deleteDoc i (users db)\<rparr>, Response 200 (Message ''User dihapus'')))"

section \<open>The application: routes that change the store\<close>

text \<open>
  The application mounts \<^verbatim>\<open>cors()\<close> and \<^verbatim>\<open>express.json()\<close> for every route and
  \<^verbatim>\<open>upload.single('image')\<close> for the two product routes with a body; each route then runs its
  handler. \<open>handle\<close> is that dispatch for the routes that write.
\<close>

datatype route =
  PostRegister | PostProducts | PutProduct | DeleteProduct
| PostTransactions | PostReduceStock | PutUser | DeleteUser

fun handle :: "env \<Rightarrow> route \<Rightarrow> request \<Rightarrow> store \<Rightarrow> store \<times> response" where
  "handle e PostRegister req db = register e req db"
| "handle e PostProducts req db = create_product e req db"
| "handle e PutProduct req db = update_product e req db"
| "handle e DeleteProduct req db = delete_product e req db"
| "handle e PostTransactions req db = record_sale e req db"
| "handle e PostReduceStock req db = reduce_stock e req db"
| "handle e PutUser req db = update_user e req db"
| "handle e DeleteUser req db = delete_user e req db"

section \<open>Requests in flight\<close>

text \<open>
  The server handles requests concurrently: a handler runs until it awaits, and the event
  loop may run any other handler before it resumes. A stock reduction in flight is
  \<open>Pending\<close> before its read, \<open>Loaded\<close> between the read and the write, holding the
  document it read, and \<open>Finished\<close> with its response. A schedule names, step by step, the
  request that runs next.
\<close>

datatype task =
  Pending request
| Loaded request "(oid \<times> product) option"
| Finished response

fun step_task :: "env \<Rightarrow> task \<Rightarrow> store \<Rightarrow> store \<times> task" where
  "step_task e (Pending req) db =
     (case reduce_stock_find req db of
        Inl err \<Rightarrow> (db, Finished (Response 500 (ErrorMessage err)))
      | Inr found \<Rightarrow> (db, Loaded req found))"
| "step_task e (Loaded req found) db =
     (case reduce_stock_apply e req found db of (db', r) \<Rightarrow> (db', Finished r))"
| "step_task e (Finished r) db = (db, Finished r)"

fun run :: "env \<Rightarrow> nat list \<Rightarrow> store \<times> task list \<Rightarrow> store \<times> task list" where
  "run e [] s = s"
| "run e (i # sched) (db, ts) =
     (if i < length ts
      then (case step_task e (ts ! i) db of (db', t') \<Rightarrow> run e sched (db', ts[i := t']))
      else run e sched (db, ts))"

text \<open>Calls executed one after another: each runs to its response before the next starts.\<close>

fun reduce_all :: "env \<Rightarrow> request list \<Rightarrow> store \<Rightarrow> store \<times> response list" where
  "reduce_all e [] db = (db, [])"
| "reduce_all e (req # reqs) db =
     (case reduce_stock e req db of
        (db', r) \<Rightarrow> (case reduce_all e reqs db' of (db'', rs) \<Rightarrow> (db'', r # rs)))"

text \<open>
  What the specification asks of calls that run one after another on a stock \<open>S\<close>: a call
  succeeds exactly when its quantity does not exceed the stock the calls before it have
  left, and only a call that succeeds takes its quantity off the stock.
\<close>

fun serve :: "int \<Rightarrow> int list \<Rightarrow> int \<times> bool list" where
  "serve S [] = (S, [])"
| "serve S (q # qs) =
     (if q \<le> S then (case serve (S - q) qs of (S', bs) \<Rightarrow> (S', True # bs))
      else (case serve S qs of (S', bs) \<Rightarrow> (S', False # bs)))"

definition granted :: "int list \<Rightarrow> bool list \<Rightarrow> int" where
  "granted qs bs = sum_list (map fst (filter snd (zip qs bs)))"

definition stock_of :: "oid \<Rightarrow> store \<Rightarrow> number option" where
  "stock_of i db = map_option stok (findById (products db) i)"

definition stocks_nonneg :: "store \<Rightarrow> bool" where
  "stocks_nonneg db = list_all (\<lambda>(i, p). nonneg (stok p)) (products db)"

definition succeeded :: "response \<Rightarrow> bool" where
  "succeeded r = (case r of Response status b \<Rightarrow> status = 200 | Unhandled err \<Rightarrow> False)"

section \<open>A shop to run the handlers on\<close>

text \<open>
  The example of the specification: a shop whose catalog holds one product, Apple at price
  10000, under the id 1. The requests of the examples carry numbers and plain strings, so
  that none of the conversions of the environment is ever applied; those of \<open>env0\<close> stand for
  no particular conversion.
\<close>

definition env0 :: env where
  "env0 = \<lparr>isVercel = False, now = 1700000000000, salt = 7,
           StringToNumber = (\<lambda>s. NaN), NumberToString = (\<lambda>x. []),
           StringToDate = (\<lambda>s. None), ValueToObjectId = (\<lambda>v. None), enumAcceptsNull = True\<rparr>"

definition apple :: "rat \<Rightarrow> product" where
  "apple S = \<lparr>nama = Some ''Apple'', harga = Fin 10000, stok = Fin S, gambar = []\<rparr>"

definition shop :: "rat \<Rightarrow> store" where
  "shop S = \<lparr>users = [], products = [(1, apple S)], transactions = [], next_oid = 2\<rparr>"

definition fields :: "(string \<times> jsval) list \<Rightarrow> string \<Rightarrow> jsval" where
  "fields fs k = (case map_of fs k of None \<Rightarrow> Undefined | Some v \<Rightarrow> v)"

definition json_request :: "idparam \<Rightarrow> (string \<times> jsval) list \<Rightarrow> request" where
  "json_request p fs = \<lparr>authorization = None, params_id = p, body = fields fs, req_file = None\<rparr>"

definition reduce_by :: "rat \<Rightarrow> request" where
  "reduce_by q = json_request (Oid 1) [(''quantity'', Num (Fin q))]"

text \<open>A request to a route with no \<^verbatim>\<open>:id\<close> in its path; such a route never reads the parameter.\<close>

definition post_request :: "(string \<times> jsval) list \<Rightarrow> request" where
  "post_request fs = json_request (BadId []) fs"

section \<open>Facts about doubles\<close>

lemma round_half_even_of_int [simp]: "round_half_even (of_int k) = k"
  by (simp add: round_half_even_def)

lemma round_half_even_nonneg: "0 \<le> x \<Longrightarrow> 0 \<le> round_half_even x"
  by (auto simp: round_half_even_def Let_def)

lemma nonneg_round_double:
  assumes "0 \<le> x"
  shows "nonneg (round_double x)"
proof (cases "x = 0")
  case True
  then show ?thesis by (simp add: round_double_def nonneg_def)
next
  case False
  with assms have pos: "0 < x" by simp
  have "0 \<le> of_int (round_half_even (\<bar>x\<bar> / 2 powi (max (exponent \<bar>x\<bar>) (- 1022) - 52)))
          * (2::rat) powi (max (exponent \<bar>x\<bar>) (- 1022) - 52)"
    by (intro mult_nonneg_nonneg) (simp_all add: round_half_even_nonneg)
  with pos show ?thesis by (auto simp: round_double_def Let_def nonneg_def)
qed

lemma exponent_of_int: "0 < n \<Longrightarrow> exponent (of_int n) = bitlen n - 1"
  by (simp add: exponent_def)

text \<open>Every integer of magnitude at most \<open>2\<^sup>5\<^sup>3\<close> is a double.\<close>

lemma round_double_of_int:
  assumes "\<bar>n\<bar> \<le> 2 ^ 53"
  shows "round_double (of_int n) = Fin (of_int n)"
proof (cases "n = 0")
  case True
  then show ?thesis by (simp add: round_double_def)
next
  case False
  define a where "a = \<bar>n\<bar>"
  have a: "0 < a" "a \<le> 2 ^ 53" using False assms by (simp_all add: a_def)
  define e where "e = bitlen a - 1"
  from bitlen_bounds [OF a(1)] have lo: "2 ^ nat e \<le> a" by (simp add: e_def)
  have e0: "0 \<le> e" using a(1) by (simp add: e_def bitlen_alt_def)
  have e53: "e \<le> 53"
  proof (rule ccontr)
    assume "\<not> e \<le> 53"
    then have "54 \<le> nat e" by simp
    then have "(2::int) ^ 54 \<le> 2 ^ nat e" by (rule power_increasing) simp
    with lo a(2) show False by simp
  qed
  have ex: "exponent (of_int a) = e"
    using exponent_of_int [OF a(1)] by (simp add: e_def)
  have m: "of_int (round_half_even (of_int a / 2 powi (e - 52))) * (2::rat) powi (e - 52) = of_int a"
  proof (cases "e \<le> 52")
    case True
    define k where "k = nat (52 - e)"
    have p: "(2::rat) powi (e - 52) = 1 / 2 ^ k"
      using True by (simp add: power_int_def field_simps k_def)
    have "of_int a / (2::rat) powi (e - 52) = of_int (a * 2 ^ k)" by (simp add: p)
    then have "round_half_even (of_int a / (2::rat) powi (e - 52)) = a * 2 ^ k"
      by (simp only: round_half_even_of_int)
    then show ?thesis by (simp add: p)
  next
    case False
    with e53 have e: "e = 53" by simp
    with lo a(2) have "a = 2 ^ 53" by simp
    moreover have "round_half_even 4503599627370496 = 4503599627370496"
      using round_half_even_of_int [of 4503599627370496] by simp
    ultimately show ?thesis using e by simp
  qed
  have small: "\<not> (2::rat) ^ 1024 \<le> of_int a"
  proof -
    have "(of_int a :: rat) \<le> 2 ^ 53" using a(2) by (metis of_int_le_iff of_int_numeral of_int_power)
    also have "\<dots> < 2 ^ 1024" by simp
    finally show ?thesis by simp
  qed
  have abs: "\<bar>of_int n :: rat\<bar> = of_int a" by (simp add: a_def)
  have mx: "max e (- 1022) = e" using e0 by simp
  have sign: "(if (of_int n :: rat) < 0 then - of_int a else of_int a) = of_int n"
    by (simp add: a_def)
  have nz: "(of_int n :: rat) \<noteq> 0" using False by simp
  show ?thesis
    by (simp only: round_double_def Let_def abs ex mx m small sign nz if_False)
qed

lemma representable_of_int: "\<bar>n\<bar> \<le> 2 ^ 53 \<Longrightarrow> representable (of_int n)"
  by (simp add: representable_def round_double_of_int)

lemma round_double_numeral:
  "(numeral k :: int) \<le> 9007199254740992 \<Longrightarrow> round_double (numeral k) = Fin (numeral k)"
  using round_double_of_int [of "numeral k"] by simp

lemma round_double_neg_numeral:
  "(numeral k :: int) \<le> 9007199254740992 \<Longrightarrow> round_double (- numeral k) = Fin (- numeral k)"
  using round_double_of_int [of "- numeral k"] by simp

lemma round_double_0: "round_double 0 = Fin 0"
  by (simp add: round_double_def)

lemma round_double_1: "round_double 1 = Fin 1"
  using round_double_of_int [of 1] by simp

lemmas round_double_ints =
  round_double_numeral round_double_neg_numeral round_double_0 round_double_1

lemma round_double_not_NaN [simp]: "round_double x \<noteq> NaN"
  by (simp add: round_double_def Let_def)

lemma num_sub_nonneg: "num_ge a b \<Longrightarrow> num_sub a b \<noteq> NaN \<Longrightarrow> nonneg (num_sub a b)"
  by (cases a; cases b) (simp_all add: nonneg_round_double, simp_all add: nonneg_def)

section \<open>Facts about the persistence layer\<close>

lemma findById_replaceDoc:
  "findById (replaceDoc i d docs) j =
     (if j = i \<and> findById docs i \<noteq> None then Some d else findById docs j)"
  by (induction docs) (auto simp: findById_def replaceDoc_def)

lemma list_all_replaceDoc:
  "list_all P docs \<Longrightarrow> P (i, d) \<Longrightarrow> list_all P (replaceDoc i d docs)"
  by (induction docs) (auto simp: replaceDoc_def)

lemma list_all_deleteDoc: "list_all P docs \<Longrightarrow> list_all P (deleteDoc i docs)"
  by (induction docs) (auto simp: deleteDoc_def)

lemmas shop_defs =
  env0_def apple_def shop_def fields_def json_request_def reduce_by_def post_request_def

lemmas handler_defs =
  register_def create_product_def update_product_def delete_product_def record_sale_def
  reduce_stock_def reduce_stock_find_def reduce_stock_apply_def update_user_def delete_user_def

lemmas layer_defs =
  findById_def insertDoc_def replaceDoc_def deleteDoc_def castObjectId_def Number_def
  castString_def castNumber_def castNumberField_def castDateField_def validName_def

section \<open>Stock reduction, one call at a time\<close>

lemma reduce_stock_found:
  assumes "params_id req = Oid i" and "findById (products db) i = Some p"
  shows "reduce_stock e req db = reduce_stock_apply e req (Some (i, p)) db"
  using assms by (simp add: reduce_stock_def reduce_stock_find_def castObjectId_def)

lemma reduce_stock_success:
  assumes "params_id req = Oid i" and "findById (products db) i = Some p"
    and "validName (nama p)" and "stok p = Fin S"
    and "Number e (body req ''quantity'') = Fin q" and "q \<le> S"
    and "round_double (S - q) = Fin d"
  shows "reduce_stock e req db =
           (if d = S then db
            else db\<lparr>products := replaceDoc i (p\<lparr>stok := Fin d\<rparr>) (products db)\<rparr>,
            Response 200 (StockJson ''Stok dikurangi'' (Fin d)))"
  using assms
  by (simp add: reduce_stock_found reduce_stock_apply_def save_stok_def)

lemma reduce_stock_success_found:
  assumes "params_id req = Oid i" and "findById (products db) i = Some p"
    and "validName (nama p)" and "stok p = Fin S"
    and "Number e (body req ''quantity'') = Fin q" and "q \<le> S"
    and "round_double (S - q) = Fin d"
  shows "findById (products (fst (reduce_stock e req db))) i = Some (p\<lparr>stok := Fin d\<rparr>)"
proof (cases "d = S")
  case True
  with assms(4) have "p\<lparr>stok := Fin d\<rparr> = p" by simp
  with True assms(2) show ?thesis by (simp add: reduce_stock_success [OF assms])
next
  case False
  with assms(2) show ?thesis
    by (simp add: reduce_stock_success [OF assms] findById_replaceDoc)
qed

lemma reduce_stock_rounds:
  assumes "params_id req = Oid i" and "findById (products db) i = Some p"
    and "validName (nama p)" and "stok p = Fin S"
    and "Number e (body req ''quantity'') = Fin q" and "q \<le> S"
  shows "snd (reduce_stock e req db) =
           Response 200 (StockJson ''Stok dikurangi'' (round_double (S - q)))"
    and "stock_of i (fst (reduce_stock e req db)) = Some (round_double (S - q))"
  using assms
  by (auto simp: reduce_stock_found reduce_stock_apply_def save_stok_def stock_of_def Let_def
      findById_replaceDoc)

lemma reduce_stock_short:
  assumes "params_id req = Oid i" and "findById (products db) i = Some p"
    and "stok p = Fin S" and "Number e (body req ''quantity'') = Fin q" and "S < q"
  shows "reduce_stock e req db = (db, Response 400 (Message ''Stok tidak cukup''))"
  using assms
  by (simp add: reduce_stock_found reduce_stock_apply_def)

text \<open>
  Claim C1, as stated, fails. The subtraction is one of doubles: on the stock
  9007199254740994 a reduction by 1 answers 200 with 9007199254740992 and stores that, which
  is not \<open>S - q\<close>. And \<^verbatim>\<open>save()\<close> validates the document it loaded: on a product whose name an
  update has emptied, a reduction that the stock covers answers 500 and stores nothing.
\<close>

theorem reduce_stock_rounding_counterexample:
  "reduce_stock env0 (reduce_by 1) (shop 9007199254740994) =
     (shop 9007199254740992, Response 200 (StockJson ''Stok dikurangi'' (Fin 9007199254740992)))
   \<and> (9007199254740994 - 1 :: rat) \<noteq> 9007199254740992
   \<and> fst (update_product env0
        (json_request (Oid 1)
           [(''nama'', Str []), (''harga'', Num (Fin 10000)), (''stok'', Num (Fin 50))])
        (shop 50)) =
     (shop 50)\<lparr>products := [(1, (apple 50)\<lparr>nama := Some []\<rparr>)]\<rparr>
   \<and> reduce_stock env0 (reduce_by 20)
       ((shop 50)\<lparr>products := [(1, (apple 50)\<lparr>nama := Some []\<rparr>)]\<rparr>) =
     ((shop 50)\<lparr>products := [(1, (apple 50)\<lparr>nama := Some []\<rparr>)]\<rparr>,
      Response 500 (ErrorMessage ValidationError))"
proof -
  have r: "round_double 9007199254740993 = Fin 9007199254740992" by code_simp
  show ?thesis
    by (simp add: reduce_stock_def reduce_stock_find_def reduce_stock_apply_def save_stok_def
        update_product_def findByIdAndUpdate_def applyUpdate_def Let_def shop_defs layer_defs r)
qed

text \<open>
  Claim C1, amended. For every existing product with current stock \<open>S\<close> and every requested
  quantity \<open>q\<close>, both finite numbers, a call of \<open>reduce_stock\<close> that runs alone: when
  \<open>S \<ge> q\<close> and the stored name of the product is a non-empty string, answers 200 with the
  double nearest to \<open>S - q\<close> as the new stock and stores it, which is \<open>S - q\<close> itself whenever
  \<open>S - q\<close> is a double (as it is for all integers of magnitude up to \<open>2\<^sup>5\<^sup>3\<close>, by
  \<open>representable_of_int\<close>); when \<open>S < q\<close>, answers 400 with the message of insufficient stock
  and leaves the store as it was.
\<close>

theorem reduce_stock_spec:
  assumes "params_id req = Oid i" and "findById (products db) i = Some p"
    and "stok p = Fin S" and "Number e (body req ''quantity'') = Fin q"
  shows "(q \<le> S \<and> validName (nama p) \<longrightarrow>
            snd (reduce_stock e req db) =
              Response 200 (StockJson ''Stok dikurangi'' (round_double (S - q)))
            \<and> stock_of i (fst (reduce_stock e req db)) = Some (round_double (S - q)))
         \<and> (q \<le> S \<and> validName (nama p) \<and> representable (S - q) \<longrightarrow>
            reduce_stock e req db =
              (if q = 0 then db
               else db\<lparr>products := replaceDoc i (p\<lparr>stok := Fin (S - q)\<rparr>) (products db)\<rparr>,
               Response 200 (StockJson ''Stok dikurangi'' (Fin (S - q))))
            \<and> stock_of i (fst (reduce_stock e req db)) = Some (Fin (S - q)))
         \<and> (S < q \<longrightarrow>
            reduce_stock e req db = (db, Response 400 (Message ''Stok tidak cukup''))
            \<and> stock_of i (fst (reduce_stock e req db)) = Some (Fin S))"
proof (intro conjI impI)
  assume g: "q \<le> S \<and> validName (nama p)"
  then have gle: "q \<le> S" and gv: "validName (nama p)" by simp_all
  show "snd (reduce_stock e req db) =
              Response 200 (StockJson ''Stok dikurangi'' (round_double (S - q)))"
    by (rule reduce_stock_rounds (1) [OF assms(1,2) gv assms(3,4) gle])
  show "stock_of i (fst (reduce_stock e req db)) = Some (round_double (S - q))"
    by (rule reduce_stock_rounds (2) [OF assms(1,2) gv assms(3,4) gle])
next
  assume ok: "q \<le> S \<and> validName (nama p) \<and> representable (S - q)"
  then have le: "q \<le> S" and v: "validName (nama p)" and r: "round_double (S - q) = Fin (S - q)"
    by (simp_all add: representable_def)
  have same: "S - q = S \<longleftrightarrow> q = 0" by auto
  show "reduce_stock e req db =
              (if q = 0 then db
               else db\<lparr>products := replaceDoc i (p\<lparr>stok := Fin (S - q)\<rparr>) (products db)\<rparr>,
               Response 200 (StockJson ''Stok dikurangi'' (Fin (S - q))))"
    by (simp only: reduce_stock_success [OF assms(1,2) v assms(3,4) le r] same)
  show "stock_of i (fst (reduce_stock e req db)) = Some (Fin (S - q))"
    by (simp add: stock_of_def reduce_stock_success_found [OF assms(1,2) v assms(3,4) le r])
next
  assume short: "S < q"
  show "reduce_stock e req db = (db, Response 400 (Message ''Stok tidak cukup''))"
    using assms short by (rule reduce_stock_short)
  then show "stock_of i (fst (reduce_stock e req db)) = Some (Fin S)"
    using assms(2,3) by (simp add: stock_of_def)
qed

theorem reduce_stock_spec_witness:
  "reduce_stock env0 (reduce_by 20) (shop 50) =
     (shop 30, Response 200 (StockJson ''Stok dikurangi'' (Fin 30)))
   \<and> stock_of 1 (fst (reduce_stock env0 (reduce_by 20) (shop 50))) = Some (Fin 30)
   \<and> reduce_stock env0 (reduce_by 40) (shop 30) =
     (shop 30, Response 400 (Message ''Stok tidak cukup''))
   \<and> stock_of 1 (fst (reduce_stock env0 (reduce_by 40) (shop 30))) = Some (Fin 30)"
proof -
  have id20: "params_id (reduce_by 20) = Oid 1" and id40: "params_id (reduce_by 40) = Oid 1"
    by (simp_all add: shop_defs)
  have p50: "findById (products (shop 50)) 1 = Some (apple 50)"
    and p30: "findById (products (shop 30)) 1 = Some (apple 30)"
    by (simp_all add: shop_defs layer_defs)
  have s50: "stok (apple 50) = Fin 50" and s30: "stok (apple 30) = Fin 30"
    by (simp_all add: apple_def)
  have q20: "Number env0 (body (reduce_by 20) ''quantity'') = Fin 20"
    and q40: "Number env0 (body (reduce_by 40) ''quantity'') = Fin 40"
    by (simp_all add: shop_defs layer_defs)
  have ok: "(20::rat) \<le> 50 \<and> validName (nama (apple 50)) \<and> representable (50 - 20)"
    by (simp add: apple_def validName_def representable_def round_double_ints)
  have short: "(30::rat) < 40" by simp
  show ?thesis
    using reduce_stock_spec [OF id20 p50 s50 q20, THEN conjunct2]
      reduce_stock_spec [OF id40 p30 s30 q40, THEN conjunct2] ok short
    by (simp add: shop_defs layer_defs stock_of_def)
qed

text \<open>
  Claim C10, as stated, fails beyond the integers that doubles count exactly: on the stock
  9007199254740992 the negative quantity \<open>-1\<close> passes the guard and the call answers 200, but
  the difference rounds back to 9007199254740992: the stock does not increase and nothing is
  written.
\<close>

theorem reduce_stock_no_increase_counterexample:
  "reduce_stock env0 (reduce_by (- 1)) (shop 9007199254740992) =
     (shop 9007199254740992, Response 200 (StockJson ''Stok dikurangi'' (Fin 9007199254740992)))"
proof -
  have r: "round_double 9007199254740993 = Fin 9007199254740992" by code_simp
  show ?thesis
    by (simp add: reduce_stock_def reduce_stock_find_def reduce_stock_apply_def save_stok_def
        shop_defs layer_defs r)
qed

text \<open>
  Claim C10, amended. \<open>reduce_stock\<close> makes no check that the quantity is positive: for
  every existing product whose stored name is a non-empty string, with a finite stock
  \<open>S \<ge> 0\<close>, and every negative finite quantity \<open>q\<close>, the guard holds, the call answers 200
  and the stored stock becomes the double nearest to \<open>S - q\<close>; whenever \<open>S - q\<close> is a double (as
  it is for all integers of magnitude up to \<open>2\<^sup>5\<^sup>3\<close>) that is \<open>S - q\<close> itself, which is more
  than \<open>S\<close>.
\<close>

theorem reduce_stock_negative_quantity:
  assumes "params_id req = Oid i" and "findById (products db) i = Some p"
    and "validName (nama p)" and "stok p = Fin S" and "0 \<le> S"
    and "Number e (body req ''quantity'') = Fin q" and "q < 0"
  shows "snd (reduce_stock e req db) =
           Response 200 (StockJson ''Stok dikurangi'' (round_double (S - q)))
         \<and> stock_of i (fst (reduce_stock e req db)) = Some (round_double (S - q))
         \<and> (representable (S - q) \<longrightarrow>
              snd (reduce_stock e req db) =
                Response 200 (StockJson ''Stok dikurangi'' (Fin (S - q)))
              \<and> stock_of i (fst (reduce_stock e req db)) = Some (Fin (S - q))
              \<and> S < S - q)"
proof -
  have le: "q \<le> S" using assms(5,7) by simp
  note r = reduce_stock_rounds [OF assms(1-4,6) le]
  have "S < S - q" using assms(7) by simp
  with r show ?thesis by (simp add: representable_def)
qed

theorem reduce_stock_negative_quantity_witness:
  "snd (reduce_stock env0 (reduce_by (- 5)) (shop 30)) =
     Response 200 (StockJson ''Stok dikurangi'' (Fin 35))
   \<and> stock_of 1 (fst (reduce_stock env0 (reduce_by (- 5)) (shop 30))) = Some (Fin 35)"
proof -
  have i: "params_id (reduce_by (- 5)) = Oid 1" by (simp add: shop_defs)
  have p: "findById (products (shop 30)) 1 = Some (apple 30)" by (simp add: shop_defs layer_defs)
  have v: "validName (nama (apple 30))" by (simp add: apple_def validName_def)
  have s: "stok (apple 30) = Fin 30" by (simp add: apple_def)
  have s0: "(0::rat) \<le> 30" by simp
  have q: "Number env0 (body (reduce_by (- 5)) ''quantity'') = Fin (- 5)"
    by (simp add: shop_defs layer_defs)
  have n: "(- 5 :: rat) < 0" by simp
  have r: "representable (30 - (- 5))" by (simp add: representable_def round_double_ints)
  show ?thesis
    using reduce_stock_negative_quantity [OF i p v s s0 q n, THEN conjunct2, THEN conjunct2] r
    by simp
qed

text \<open>
  Claim C4, as stated, fails: for an id that names no product the handler takes the same
  \<^verbatim>\<open>else\<close> branch as for a stock that is too small, and the two responses are equal.
\<close>

theorem reduce_stock_unknown_id_counterexample:
  "snd (reduce_stock env0 (json_request (Oid 9) [(''quantity'', Num (Fin 1))]) (shop 50)) =
     Response 400 (Message ''Stok tidak cukup'')
   \<and> snd (reduce_stock env0 (json_request (Oid 9) [(''quantity'', Num (Fin 1))]) (shop 50)) =
      snd (reduce_stock env0 (reduce_by 51) (shop 50))"
  by (simp add: reduce_stock_def reduce_stock_find_def reduce_stock_apply_def shop_defs layer_defs)

text \<open>
  Claim C4, amended. For every id that names no product and every quantity, \<open>reduce_stock\<close>
  fails and leaves the store unchanged: with status 400 and the message of insufficient stock
  when the id is a well-formed ObjectId, with status 500 and the cast error when it is not.
\<close>

theorem reduce_stock_unknown_id:
  assumes "\<And>i. params_id req = Oid i \<Longrightarrow> findById (products db) i = None"
  shows "reduce_stock e req db =
           (db, case params_id req of
                  Oid i \<Rightarrow> Response 400 (Message ''Stok tidak cukup'')
                | BadId s \<Rightarrow> Response 500 (ErrorMessage CastError))"
  using assms
  by (cases "params_id req")
     (simp_all add: reduce_stock_def reduce_stock_find_def reduce_stock_apply_def castObjectId_def)

theorem reduce_stock_unknown_id_witness:
  "reduce_stock env0 (json_request (Oid 9) [(''quantity'', Num (Fin 1))]) (shop 50) =
     (shop 50, Response 400 (Message ''Stok tidak cukup''))
   \<and> reduce_stock env0 (json_request (BadId ''apple'') [(''quantity'', Num (Fin 1))]) (shop 50) =
     (shop 50, Response 500 (ErrorMessage CastError))"
proof -
  have h9: "findById (products (shop 50)) i = None"
    if "params_id (json_request (Oid 9) [(''quantity'', Num (Fin 1))]) = Oid i" for i
    using that by (simp add: shop_defs layer_defs)
  have hb: "findById (products (shop 50)) i = None"
    if "params_id (json_request (BadId ''apple'') [(''quantity'', Num (Fin 1))]) = Oid i" for i
    using that by (simp add: shop_defs)
  show ?thesis
    using reduce_stock_unknown_id [of "json_request (Oid 9) [(''quantity'', Num (Fin 1))]" "shop 50" env0, OF h9]
      reduce_stock_unknown_id [of "json_request (BadId ''apple'') [(''quantity'', Num (Fin 1))]" "shop 50" env0, OF hb]
    by (simp add: shop_defs)
qed

section \<open>What is stored as a stock\<close>

lemma reduce_stock_apply_nonneg:
  "stocks_nonneg db \<Longrightarrow> stocks_nonneg (fst (reduce_stock_apply e req found db))"
  by (auto simp: reduce_stock_apply_def save_stok_def stocks_nonneg_def Let_def num_sub_nonneg
      intro!: list_all_replaceDoc split: option.splits sum.splits if_splits)

lemma reduce_stock_nonneg:
  "stocks_nonneg db \<Longrightarrow> stocks_nonneg (fst (reduce_stock e req db))"
  by (auto simp: reduce_stock_def reduce_stock_apply_nonneg split: sum.splits)

lemma reduce_stock_writes:
  assumes "params_id req = Oid i" and "findById (products db) i = Some p"
    and "validName (nama p)"
    and "num_ge (stok p) (Number e (body req ''quantity''))"
    and "num_sub (stok p) (Number e (body req ''quantity'')) \<noteq> NaN"
  shows "stock_of i (fst (reduce_stock e req db)) =
           Some (num_sub (stok p) (Number e (body req ''quantity'')))"
  using assms
  by (auto simp: reduce_stock_found reduce_stock_apply_def save_stok_def stock_of_def Let_def
      findById_replaceDoc)

text \<open>The two product routes with a body.\<close>

lemma create_product_rejected:
  assumes "\<not> validName (castString e (body req ''nama''))
           \<or> Number e (body req ''harga'') = NaN \<or> Number e (body req ''stok'') = NaN"
  shows "create_product e req db = (db, Response 400 (ErrorMessage ValidationError))"
  using assms
  by (auto simp: create_product_def validateProduct_def castNumber_def Let_def)

lemma create_product_accepted:
  assumes "validName (castString e (body req ''nama''))"
    and "Number e (body req ''harga'') \<noteq> NaN" and "Number e (body req ''stok'') \<noteq> NaN"
  shows "create_product e req db =
           (db\<lparr>products :=
                 (next_oid db,
                  \<lparr>nama = castString e (body req ''nama''), harga = Number e (body req ''harga''),
                   stok = Number e (body req ''stok''),
                   gambar = (case req_file req of Some f \<Rightarrow> uploaded e f | None \<Rightarrow> [])\<rparr>)
                 # products db,
               next_oid := Suc (next_oid db)\<rparr>,
            Response 201
              (ProductJson
                (Some \<lparr>nama = castString e (body req ''nama''),
                       harga = Number e (body req ''harga''), stok = Number e (body req ''stok''),
                       gambar = (case req_file req of Some f \<Rightarrow> uploaded e f | None \<Rightarrow> [])\<rparr>)))"
  using assms
  by (simp add: create_product_def validateProduct_def castNumber_def insertDoc_def Let_def)

lemma update_product_refused:
  assumes "Number e (body req ''harga'') = NaN \<or> Number e (body req ''stok'') = NaN"
  shows "update_product e req db = (db, Response 400 (ErrorMessage CastError))"
  using assms
  by (auto simp: update_product_def findByIdAndUpdate_def castNumber_def castObjectId_def
      Let_def split: idparam.splits)

lemma update_product_applied:
  assumes "params_id req = Oid i" and "findById (products db) i = Some p"
    and "Number e (body req ''harga'') \<noteq> NaN" and "Number e (body req ''stok'') \<noteq> NaN"
  shows "update_product e req db =
           (db\<lparr>products :=
                 replaceDoc i
                   \<lparr>nama = (if body req ''nama'' = Undefined then nama p
                            else castString e (body req ''nama'')),
                    harga = Number e (body req ''harga''), stok = Number e (body req ''stok''),
                    gambar = (case req_file req of None \<Rightarrow> gambar p | Some f \<Rightarrow> uploaded e f)\<rparr>
                   (products db)\<rparr>,
            Response 200
              (ProductJson
                (Some \<lparr>nama = (if body req ''nama'' = Undefined then nama p
                               else castString e (body req ''nama'')),
                       harga = Number e (body req ''harga''), stok = Number e (body req ''stok''),
                       gambar = (case req_file req of None \<Rightarrow> gambar p | Some f \<Rightarrow> uploaded e f)\<rparr>)))"
  using assms
  by (cases "req_file req")
     (simp_all add: update_product_def findByIdAndUpdate_def castNumber_def castObjectId_def
      applyUpdate_def Let_def)

text \<open>
  Claim C5, as stated, fails twice. \<open>create_product\<close> checks no sign: a product created with
  the stock \<open>-5\<close> is stored with that stock, in a catalog whose stocks were all non-negative.
  And a stock need not stay an integer: a reduction of the stock 50 by one half answers 200
  and stores 49.5.
\<close>

theorem stock_sign_counterexample:
  "create_product env0
     (post_request [(''nama'', Str ''Pear''), (''harga'', Num (Fin 5000)), (''stok'', Num (Fin (- 5)))])
     (shop 50) =
   ((shop 50)\<lparr>products :=
        [(2, \<lparr>nama = Some ''Pear'', harga = Fin 5000, stok = Fin (- 5), gambar = []\<rparr>), (1, apple 50)],
      next_oid := 3\<rparr>,
    Response 201
      (ProductJson (Some \<lparr>nama = Some ''Pear'', harga = Fin 5000, stok = Fin (- 5), gambar = []\<rparr>)))
   \<and> stocks_nonneg (shop 50)
   \<and> \<not> stocks_nonneg
        (fst (create_product env0
          (post_request [(''nama'', Str ''Pear''), (''harga'', Num (Fin 5000)), (''stok'', Num (Fin (- 5)))])
          (shop 50)))
   \<and> reduce_stock env0 (reduce_by (1 / 2)) (shop 50) =
     (shop (99 / 2), Response 200 (StockJson ''Stok dikurangi'' (Fin (99 / 2))))
   \<and> (49 :: rat) < 99 / 2 \<and> (99 / 2 :: rat) < 50"
proof -
  have r: "round_double (99 / 2) = Fin (99 / 2)" by code_simp
  have frac: "(49 :: rat) < 99 / 2 \<and> (99 / 2 :: rat) < 50" by simp
  have "reduce_stock env0 (reduce_by (1 / 2)) (shop 50) =
     (shop (99 / 2), Response 200 (StockJson ''Stok dikurangi'' (Fin (99 / 2))))"
    by (simp add: reduce_stock_def reduce_stock_find_def reduce_stock_apply_def save_stok_def
        shop_defs layer_defs r)
  moreover have "create_product env0
     (post_request [(''nama'', Str ''Pear''), (''harga'', Num (Fin 5000)), (''stok'', Num (Fin (- 5)))])
     (shop 50) =
   ((shop 50)\<lparr>products :=
        [(2, \<lparr>nama = Some ''Pear'', harga = Fin 5000, stok = Fin (- 5), gambar = []\<rparr>), (1, apple 50)],
      next_oid := 3\<rparr>,
    Response 201
      (ProductJson (Some \<lparr>nama = Some ''Pear'', harga = Fin 5000, stok = Fin (- 5), gambar = []\<rparr>)))"
    by (simp add: create_product_def validateProduct_def shop_defs layer_defs)
  moreover have "stocks_nonneg (shop 50)"
    by (simp add: stocks_nonneg_def nonneg_def shop_defs)
  moreover have "\<not> stocks_nonneg
        (fst (create_product env0
          (post_request [(''nama'', Str ''Pear''), (''harga'', Num (Fin 5000)), (''stok'', Num (Fin (- 5)))])
          (shop 50)))"
    by (simp add: create_product_def validateProduct_def stocks_nonneg_def nonneg_def
        shop_defs layer_defs)
  ultimately show ?thesis using frac by blast
qed

text \<open>
  Claim C5, amended. \<open>reduce_stock\<close> never stores a negative stock: it keeps every stock
  non-negative in a store whose stocks are non-negative, for every request; what it stores
  for a product with a valid name is the difference of the stock and the quantity as doubles,
  only when the stock is at least the quantity, and that difference is not negative (it need
  not be an integer). \<open>create_product\<close> and \<open>update_product\<close> check neither sign nor
  integrality: when they accept a request (one whose fields are scalars), the stock they
  store is the number that \<^verbatim>\<open>Number(stok)\<close> gives, whatever it is.
\<close>

theorem stock_writes:
  "(stocks_nonneg db \<longrightarrow> stocks_nonneg (fst (reduce_stock e req db)))
   \<and> (params_id req = Oid i \<and> findById (products db) i = Some p \<and> validName (nama p)
        \<and> num_ge (stok p) (Number e (body req ''quantity''))
        \<and> num_sub (stok p) (Number e (body req ''quantity'')) \<noteq> NaN \<longrightarrow>
      stock_of i (fst (reduce_stock e req db)) =
        Some (num_sub (stok p) (Number e (body req ''quantity'')))
      \<and> nonneg (num_sub (stok p) (Number e (body req ''quantity''))))
   \<and> (validName (castString e (body req ''nama''))
        \<and> Number e (body req ''harga'') \<noteq> NaN \<and> Number e (body req ''stok'') \<noteq> NaN \<longrightarrow>
      stock_of (next_oid db) (fst (create_product e req db)) = Some (Number e (body req ''stok'')))
   \<and> (params_id req = Oid i \<and> findById (products db) i = Some p
        \<and> Number e (body req ''harga'') \<noteq> NaN \<and> Number e (body req ''stok'') \<noteq> NaN \<longrightarrow>
      stock_of i (fst (update_product e req db)) = Some (Number e (body req ''stok'')))"
proof (intro conjI impI)
  assume "stocks_nonneg db"
  then show "stocks_nonneg (fst (reduce_stock e req db))" by (rule reduce_stock_nonneg)
next
  assume a: "params_id req = Oid i \<and> findById (products db) i = Some p \<and> validName (nama p)
        \<and> num_ge (stok p) (Number e (body req ''quantity''))
        \<and> num_sub (stok p) (Number e (body req ''quantity'')) \<noteq> NaN"
  then show "stock_of i (fst (reduce_stock e req db)) =
        Some (num_sub (stok p) (Number e (body req ''quantity'')))"
    by (simp add: reduce_stock_writes)
  from a show "nonneg (num_sub (stok p) (Number e (body req ''quantity'')))"
    by (simp add: num_sub_nonneg)
next
  assume "validName (castString e (body req ''nama''))
        \<and> Number e (body req ''harga'') \<noteq> NaN \<and> Number e (body req ''stok'') \<noteq> NaN"
  then show "stock_of (next_oid db) (fst (create_product e req db)) =
      Some (Number e (body req ''stok''))"
    by (simp add: create_product_accepted stock_of_def findById_def)
next
  assume "params_id req = Oid i \<and> findById (products db) i = Some p
        \<and> Number e (body req ''harga'') \<noteq> NaN \<and> Number e (body req ''stok'') \<noteq> NaN"
  then show "stock_of i (fst (update_product e req db)) = Some (Number e (body req ''stok''))"
    by (simp add: update_product_applied stock_of_def findById_replaceDoc)
qed

theorem stock_writes_witness:
  "stocks_nonneg (fst (reduce_stock env0 (reduce_by 20) (shop 50)))
   \<and> stock_of 1 (fst (reduce_stock env0 (reduce_by 20) (shop 50))) = Some (Fin 30)
   \<and> stock_of 2
       (fst (create_product env0
          (post_request [(''nama'', Str ''Pear''), (''harga'', Num (Fin 5000)), (''stok'', Num (Fin (5 / 2)))])
          (shop 50))) = Some (Fin (5 / 2))
   \<and> stock_of 1
       (fst (update_product env0
          (json_request (Oid 1) [(''harga'', Num (Fin 10000)), (''stok'', Num (Fin (- 4)))])
          (shop 50))) = Some (Fin (- 4))"
proof -
  have inv: "stocks_nonneg (shop 50)" by (simp add: stocks_nonneg_def nonneg_def shop_defs)
  have red: "params_id (reduce_by 20) = Oid 1 \<and> findById (products (shop 50)) 1 = Some (apple 50)
        \<and> validName (nama (apple 50))
        \<and> num_ge (stok (apple 50)) (Number env0 (body (reduce_by 20) ''quantity''))
        \<and> num_sub (stok (apple 50)) (Number env0 (body (reduce_by 20) ''quantity'')) \<noteq> NaN"
    by (simp add: shop_defs layer_defs round_double_ints)
  have sub: "num_sub (stok (apple 50)) (Number env0 (body (reduce_by 20) ''quantity'')) = Fin 30"
    by (simp add: shop_defs layer_defs round_double_ints)
  have cre: "validName (castString env0
               (body (post_request [(''nama'', Str ''Pear''), (''harga'', Num (Fin 5000)),
                                    (''stok'', Num (Fin (5 / 2)))]) ''nama''))
        \<and> Number env0
            (body (post_request [(''nama'', Str ''Pear''), (''harga'', Num (Fin 5000)),
                                 (''stok'', Num (Fin (5 / 2)))]) ''harga'') \<noteq> NaN
        \<and> Number env0
            (body (post_request [(''nama'', Str ''Pear''), (''harga'', Num (Fin 5000)),
                                 (''stok'', Num (Fin (5 / 2)))]) ''stok'') \<noteq> NaN"
    by (simp add: shop_defs layer_defs)
  have upd: "params_id (json_request (Oid 1) [(''harga'', Num (Fin 10000)), (''stok'', Num (Fin (- 4)))])
               = Oid 1
        \<and> findById (products (shop 50)) 1 = Some (apple 50)
        \<and> Number env0
            (body (json_request (Oid 1) [(''harga'', Num (Fin 10000)), (''stok'', Num (Fin (- 4)))])
               ''harga'') \<noteq> NaN
        \<and> Number env0
            (body (json_request (Oid 1) [(''harga'', Num (Fin 10000)), (''stok'', Num (Fin (- 4)))])
               ''stok'') \<noteq> NaN"
    by (simp add: shop_defs layer_defs)
  have n: "next_oid (shop 50) = 2" by (simp add: shop_def)
  have v1: "Number env0
            (body (post_request [(''nama'', Str ''Pear''), (''harga'', Num (Fin 5000)),
                                 (''stok'', Num (Fin (5 / 2)))]) ''stok'') = Fin (5 / 2)"
    and v2: "Number env0
            (body (json_request (Oid 1) [(''harga'', Num (Fin 10000)), (''stok'', Num (Fin (- 4)))])
               ''stok'') = Fin (- 4)"
    by (simp_all add: shop_defs layer_defs)
  from stock_writes [of "shop 50" env0 "reduce_by 20" 1 "apple 50"] inv red sub
  have a: "stocks_nonneg (fst (reduce_stock env0 (reduce_by 20) (shop 50)))"
    and b: "stock_of 1 (fst (reduce_stock env0 (reduce_by 20) (shop 50))) = Some (Fin 30)"
    by simp_all
  from stock_writes
    [of "shop 50" env0
        "post_request [(''nama'', Str ''Pear''), (''harga'', Num (Fin 5000)), (''stok'', Num (Fin (5 / 2)))]"]
    cre n v1
  have c: "stock_of 2
       (fst (create_product env0
          (post_request [(''nama'', Str ''Pear''), (''harga'', Num (Fin 5000)), (''stok'', Num (Fin (5 / 2)))])
          (shop 50))) = Some (Fin (5 / 2))"
    by simp
  from stock_writes
    [of "shop 50" env0
        "json_request (Oid 1) [(''harga'', Num (Fin 10000)), (''stok'', Num (Fin (- 4)))]" 1 "apple 50"]
    upd v2
  have d: "stock_of 1
       (fst (update_product env0
          (json_request (Oid 1) [(''harga'', Num (Fin 10000)), (''stok'', Num (Fin (- 4)))])
          (shop 50))) = Some (Fin (- 4))"
    by simp
  from a b c d show ?thesis by simp
qed

section \<open>Creating a product\<close>

text \<open>
  Claim C6, as stated, fails: a product with the price 0 is created, and so is one with a
  negative price.
\<close>

theorem create_product_no_range_check_counterexample:
  "create_product env0
     (post_request [(''nama'', Str ''Pear''), (''harga'', Num (Fin 0)), (''stok'', Num (Fin 5))]) (shop 50) =
   ((shop 50)\<lparr>products :=
        [(2, \<lparr>nama = Some ''Pear'', harga = Fin 0, stok = Fin 5, gambar = []\<rparr>), (1, apple 50)],
      next_oid := 3\<rparr>,
    Response 201 (ProductJson (Some \<lparr>nama = Some ''Pear'', harga = Fin 0, stok = Fin 5, gambar = []\<rparr>)))
   \<and> snd (create_product env0
          (post_request [(''nama'', Str ''Pear''), (''harga'', Num (Fin (- 1))), (''stok'', Num (Fin 5))])
          (shop 50)) =
     Response 201
       (ProductJson (Some \<lparr>nama = Some ''Pear'', harga = Fin (- 1), stok = Fin 5, gambar = []\<rparr>))"
  by (simp add: create_product_def validateProduct_def shop_defs layer_defs)

text \<open>
  Claim C6, amended. For a request whose fields are scalars, \<open>create_product\<close> fails with
  a validation error (status 400), creating no product record, whenever the name is missing,
  \<^verbatim>\<open>null\<close> or the empty string, or
  \<^verbatim>\<open>Number(price)\<close> or \<^verbatim>\<open>Number(stock)\<close> is \<^verbatim>\<open>NaN\<close> (as for a missing field; \<^verbatim>\<open>null\<close> and the
  empty string convert to 0 and are accepted). It checks the sign of neither number: for
  every other input it creates one product, whose stored stock is \<^verbatim>\<open>Number(stock)\<close> exactly.
\<close>

theorem create_product_validation:
  "(\<not> validName (castString e (body req ''nama''))
      \<or> Number e (body req ''harga'') = NaN \<or> Number e (body req ''stok'') = NaN \<longrightarrow>
      create_product e req db = (db, Response 400 (ErrorMessage ValidationError)))
   \<and> (validName (castString e (body req ''nama''))
        \<and> Number e (body req ''harga'') \<noteq> NaN \<and> Number e (body req ''stok'') \<noteq> NaN \<longrightarrow>
      products (fst (create_product e req db)) =
        (next_oid db,
         \<lparr>nama = castString e (body req ''nama''), harga = Number e (body req ''harga''),
          stok = Number e (body req ''stok''),
          gambar = (case req_file req of Some f \<Rightarrow> uploaded e f | None \<Rightarrow> [])\<rparr>)
        # products db
      \<and> stock_of (next_oid db) (fst (create_product e req db)) = Some (Number e (body req ''stok''))
      \<and> snd (create_product e req db) =
          Response 201
            (ProductJson
              (Some \<lparr>nama = castString e (body req ''nama''),
                     harga = Number e (body req ''harga''), stok = Number e (body req ''stok''),
                     gambar = (case req_file req of Some f \<Rightarrow> uploaded e f | None \<Rightarrow> [])\<rparr>)))"
proof (intro conjI impI)
  assume "\<not> validName (castString e (body req ''nama''))
      \<or> Number e (body req ''harga'') = NaN \<or> Number e (body req ''stok'') = NaN"
  then show "create_product e req db = (db, Response 400 (ErrorMessage ValidationError))"
    by (rule create_product_rejected)
next
  assume ok: "validName (castString e (body req ''nama''))
        \<and> Number e (body req ''harga'') \<noteq> NaN \<and> Number e (body req ''stok'') \<noteq> NaN"
  then show "products (fst (create_product e req db)) =
        (next_oid db,
         \<lparr>nama = castString e (body req ''nama''), harga = Number e (body req ''harga''),
          stok = Number e (body req ''stok''),
          gambar = (case req_file req of Some f \<Rightarrow> uploaded e f | None \<Rightarrow> [])\<rparr>)
        # products db"
    by (simp add: create_product_accepted)
  from ok show "stock_of (next_oid db) (fst (create_product e req db)) =
      Some (Number e (body req ''stok''))"
    by (simp add: create_product_accepted stock_of_def findById_def)
  from ok show "snd (create_product e req db) =
          Response 201
            (ProductJson
              (Some \<lparr>nama = castString e (body req ''nama''),
                     harga = Number e (body req ''harga''), stok = Number e (body req ''stok''),
                     gambar = (case req_file req of Some f \<Rightarrow> uploaded e f | None \<Rightarrow> [])\<rparr>))"
    by (simp add: create_product_accepted)
qed

theorem create_product_validation_witness:
  "create_product env0
     (post_request [(''nama'', Str []), (''harga'', Num (Fin 10000)), (''stok'', Num (Fin 50))])
     (shop 0) =
     (shop 0, Response 400 (ErrorMessage ValidationError))
   \<and> products
       (fst (create_product env0
          (post_request [(''nama'', Str ''Pear''), (''harga'', Num (Fin (- 1))), (''stok'', Str [])])
          (shop 0))) =
     [(2, \<lparr>nama = Some ''Pear'', harga = Fin (- 1), stok = Fin 0, gambar = []\<rparr>), (1, apple 0)]"
proof -
  have bad: "\<not> validName (castString env0
               (body (post_request [(''nama'', Str []), (''harga'', Num (Fin 10000)),
                                    (''stok'', Num (Fin 50))]) ''nama''))"
    by (simp add: shop_defs layer_defs)
  have ok: "validName (castString env0
              (body (post_request [(''nama'', Str ''Pear''), (''harga'', Num (Fin (- 1))),
                                   (''stok'', Str [])]) ''nama''))
            \<and> Number env0
                (body (post_request [(''nama'', Str ''Pear''), (''harga'', Num (Fin (- 1))),
                                     (''stok'', Str [])]) ''harga'') \<noteq> NaN
            \<and> Number env0
                (body (post_request [(''nama'', Str ''Pear''), (''harga'', Num (Fin (- 1))),
                                     (''stok'', Str [])]) ''stok'') \<noteq> NaN"
    by (simp add: shop_defs layer_defs)
  show ?thesis
    using bad ok
      create_product_validation
        [of env0 "post_request [(''nama'', Str []), (''harga'', Num (Fin 10000)), (''stok'', Num (Fin 50))]"
            "shop 0"]
      create_product_validation
        [of env0 "post_request [(''nama'', Str ''Pear''), (''harga'', Num (Fin (- 1))), (''stok'', Str [])]"
            "shop 0"]
    by (simp add: shop_defs layer_defs)
qed

section \<open>Updating a product\<close>

text \<open>
  Claim C7, as stated, fails: \<open>update_product\<close> is no partial update. The handler always
  puts \<^verbatim>\<open>Number(harga)\<close> and \<^verbatim>\<open>Number(stok)\<close> into the update, so a request that supplies
  only a new name is refused with status 400 and the name is not changed; a request changes
  the product only when it gives both price and stock.
\<close>

theorem update_product_rename_counterexample:
  "update_product env0 (json_request (Oid 1) [(''nama'', Str ''Pear'')]) (shop 50) =
     (shop 50, Response 400 (ErrorMessage CastError))
   \<and> update_product env0
       (json_request (Oid 1) [(''harga'', Num (Fin 12000)), (''stok'', Num (Fin 50))]) (shop 50) =
     ((shop 50)\<lparr>products := [(1, (apple 50)\<lparr>harga := Fin 12000\<rparr>)]\<rparr>,
      Response 200 (ProductJson (Some ((apple 50)\<lparr>harga := Fin 12000\<rparr>))))"
  by (simp add: update_product_def findByIdAndUpdate_def applyUpdate_def Let_def
      shop_defs layer_defs)

text \<open>
  Claim C7, amended. For every existing product and every request whose fields are scalars:
  a request whose price or stock is missing,
  or converts to \<^verbatim>\<open>NaN\<close>, is refused with status 400 and changes nothing, a supplied name or
  image included. A request whose price and stock both convert to numbers sets price and
  stock to those numbers, sets the name when the request supplies one and keeps the stored
  name otherwise, and sets the image reference when a file is uploaded and keeps the stored
  one otherwise.
\<close>

theorem update_product_effect:
  assumes "params_id req = Oid i" and "findById (products db) i = Some p"
  shows "(Number e (body req ''harga'') = NaN \<or> Number e (body req ''stok'') = NaN \<longrightarrow>
            update_product e req db = (db, Response 400 (ErrorMessage CastError)))
         \<and> (Number e (body req ''harga'') \<noteq> NaN \<and> Number e (body req ''stok'') \<noteq> NaN \<longrightarrow>
            products (fst (update_product e req db)) =
              replaceDoc i
                \<lparr>nama = (if body req ''nama'' = Undefined then nama p
                         else castString e (body req ''nama'')),
                 harga = Number e (body req ''harga''), stok = Number e (body req ''stok''),
                 gambar = (case req_file req of None \<Rightarrow> gambar p | Some f \<Rightarrow> uploaded e f)\<rparr>
                (products db)
            \<and> findById (products (fst (update_product e req db))) i =
                Some \<lparr>nama = (if body req ''nama'' = Undefined then nama p
                              else castString e (body req ''nama'')),
                      harga = Number e (body req ''harga''), stok = Number e (body req ''stok''),
                      gambar = (case req_file req of None \<Rightarrow> gambar p | Some f \<Rightarrow> uploaded e f)\<rparr>
            \<and> snd (update_product e req db) =
                Response 200
                  (ProductJson
                    (Some \<lparr>nama = (if body req ''nama'' = Undefined then nama p
                                   else castString e (body req ''nama'')),
                           harga = Number e (body req ''harga''),
                           stok = Number e (body req ''stok''),
                           gambar = (case req_file req of None \<Rightarrow> gambar p
                                     | Some f \<Rightarrow> uploaded e f)\<rparr>)))"
proof (intro conjI impI)
  assume "Number e (body req ''harga'') = NaN \<or> Number e (body req ''stok'') = NaN"
  then show "update_product e req db = (db, Response 400 (ErrorMessage CastError))"
    by (rule update_product_refused)
next
  assume ok: "Number e (body req ''harga'') \<noteq> NaN \<and> Number e (body req ''stok'') \<noteq> NaN"
  then have h: "Number e (body req ''harga'') \<noteq> NaN" and s: "Number e (body req ''stok'') \<noteq> NaN"
    by simp_all
  note eq = update_product_applied [OF assms h s]
  show "products (fst (update_product e req db)) =
              replaceDoc i
                \<lparr>nama = (if body req ''nama'' = Undefined then nama p
                         else castString e (body req ''nama'')),
                 harga = Number e (body req ''harga''), stok = Number e (body req ''stok''),
                 gambar = (case req_file req of None \<Rightarrow> gambar p | Some f \<Rightarrow> uploaded e f)\<rparr>
                (products db)"
    by (simp add: eq)
  show "findById (products (fst (update_product e req db))) i =
                Some \<lparr>nama = (if body req ''nama'' = Undefined then nama p
                              else castString e (body req ''nama'')),
                      harga = Number e (body req ''harga''), stok = Number e (body req ''stok''),
                      gambar = (case req_file req of None \<Rightarrow> gambar p | Some f \<Rightarrow> uploaded e f)\<rparr>"
    using assms(2) by (simp add: eq findById_replaceDoc)
  show "snd (update_product e req db) =
                Response 200
                  (ProductJson
                    (Some \<lparr>nama = (if body req ''nama'' = Undefined then nama p
                                   else castString e (body req ''nama'')),
                           harga = Number e (body req ''harga''),
                           stok = Number e (body req ''stok''),
                           gambar = (case req_file req of None \<Rightarrow> gambar p
                                     | Some f \<Rightarrow> uploaded e f)\<rparr>))"
    by (simp add: eq)
qed

theorem update_product_effect_witness:
  "update_product env0 (json_request (Oid 1) [(''nama'', Str ''Pear''), (''stok'', Num (Fin 40))])
     (shop 50) =
     (shop 50, Response 400 (ErrorMessage CastError))
   \<and> findById
       (products (fst (update_product env0
          ((json_request (Oid 1) [(''harga'', Num (Fin 12000)), (''stok'', Num (Fin 40))])
             \<lparr>req_file := Some \<lparr>path = ''uploads/17.png'', filename = ''17.png''\<rparr>\<rparr>)
          (shop 50)))) 1 =
     Some \<lparr>nama = Some ''Apple'', harga = Fin 12000, stok = Fin 40, gambar = ''17.png''\<rparr>"
proof -
  have i1: "params_id (json_request (Oid 1) [(''nama'', Str ''Pear''), (''stok'', Num (Fin 40))]) = Oid 1"
    and i2: "params_id
              ((json_request (Oid 1) [(''harga'', Num (Fin 12000)), (''stok'', Num (Fin 40))])
                 \<lparr>req_file := Some \<lparr>path = ''uploads/17.png'', filename = ''17.png''\<rparr>\<rparr>) = Oid 1"
    by (simp_all add: shop_defs)
  have p: "findById (products (shop 50)) 1 = Some (apple 50)"
    by (simp add: shop_defs layer_defs)
  have bad: "Number env0
               (body (json_request (Oid 1) [(''nama'', Str ''Pear''), (''stok'', Num (Fin 40))])
                  ''harga'') = NaN"
    by (simp add: shop_defs layer_defs)
  have ok: "Number env0
              (body ((json_request (Oid 1) [(''harga'', Num (Fin 12000)), (''stok'', Num (Fin 40))])
                       \<lparr>req_file := Some \<lparr>path = ''uploads/17.png'', filename = ''17.png''\<rparr>\<rparr>)
                 ''harga'') \<noteq> NaN
            \<and> Number env0
              (body ((json_request (Oid 1) [(''harga'', Num (Fin 12000)), (''stok'', Num (Fin 40))])
                       \<lparr>req_file := Some \<lparr>path = ''uploads/17.png'', filename = ''17.png''\<rparr>\<rparr>)
                 ''stok'') \<noteq> NaN"
    by (simp add: shop_defs layer_defs)
  from update_product_effect [OF i1 p, of env0] bad
  have first: "update_product env0
      (json_request (Oid 1) [(''nama'', Str ''Pear''), (''stok'', Num (Fin 40))]) (shop 50) =
     (shop 50, Response 400 (ErrorMessage CastError))"
    by simp
  from update_product_effect [OF i2 p, of env0] ok
  have "findById
       (products (fst (update_product env0
          ((json_request (Oid 1) [(''harga'', Num (Fin 12000)), (''stok'', Num (Fin 40))])
             \<lparr>req_file := Some \<lparr>path = ''uploads/17.png'', filename = ''17.png''\<rparr>\<rparr>)
          (shop 50)))) 1 =
     Some \<lparr>nama = (if body ((json_request (Oid 1) [(''harga'', Num (Fin 12000)), (''stok'', Num (Fin 40))])
                       \<lparr>req_file := Some \<lparr>path = ''uploads/17.png'', filename = ''17.png''\<rparr>\<rparr>) ''nama'' = Undefined then nama (apple 50)
                         else castString env0 (body ((json_request (Oid 1) [(''harga'', Num (Fin 12000)), (''stok'', Num (Fin 40))])
                       \<lparr>req_file := Some \<lparr>path = ''uploads/17.png'', filename = ''17.png''\<rparr>\<rparr>) ''nama'')),
                 harga = Number env0 (body ((json_request (Oid 1) [(''harga'', Num (Fin 12000)), (''stok'', Num (Fin 40))])
                       \<lparr>req_file := Some \<lparr>path = ''uploads/17.png'', filename = ''17.png''\<rparr>\<rparr>) ''harga''),
                 stok = Number env0 (body ((json_request (Oid 1) [(''harga'', Num (Fin 12000)), (''stok'', Num (Fin 40))])
                       \<lparr>req_file := Some \<lparr>path = ''uploads/17.png'', filename = ''17.png''\<rparr>\<rparr>) ''stok''),
                 gambar = (case req_file ((json_request (Oid 1) [(''harga'', Num (Fin 12000)), (''stok'', Num (Fin 40))])
                       \<lparr>req_file := Some \<lparr>path = ''uploads/17.png'', filename = ''17.png''\<rparr>\<rparr>) of None \<Rightarrow> gambar (apple 50) | Some f \<Rightarrow> uploaded env0 f)\<rparr>"
    by blast
  then have second: "findById
       (products (fst (update_product env0
          ((json_request (Oid 1) [(''harga'', Num (Fin 12000)), (''stok'', Num (Fin 40))])
             \<lparr>req_file := Some \<lparr>path = ''uploads/17.png'', filename = ''17.png''\<rparr>\<rparr>)
          (shop 50)))) 1 =
     Some \<lparr>nama = Some ''Apple'', harga = Fin 12000, stok = Fin 40, gambar = ''17.png''\<rparr>"
    by (simp add: shop_defs layer_defs uploaded_def)
  from first second show ?thesis by (rule conjI)
qed

section \<open>The ledger\<close>







section \<open>Registration\<close>

lemma register_twice:
  assumes "register e1 req1 db = (db1, Response 201 m)"
    and "castString e2 (body req2 ''username'') = castString e1 (body req1 ''username'')"
  shows "register e2 req2 db1 = (db1, Response 400 (Message ''Username sudah ada''))"
    and "\<exists>u. findById (users db1) (next_oid db) = Some u
             \<and> username u = castString e1 (body req1 ''username'')
             \<and> validName (username u)"
proof -
  from assms(1) obtain h u where
    v: "validateUser e1 (body req1 ''username'') h (body req1 ''role'') = Inr u"
    and i: "insertUser u db = Inr db1"
    by (auto simp: register_def split: sum.splits)
  from v have n: "username u = castString e1 (body req1 ''username'')"
    and vn: "validName (username u)"
    by (auto simp: validateUser_def split: sum.splits if_splits)
  from i have us: "users db1 = (next_oid db, u) # users db"
    by (auto simp: insertUser_def insertDoc_def split: if_splits)
  then have taken: "username_taken (username u) (users db1)"
    by (simp add: username_taken_def)
  have "insertUser u' db1 = Inl DuplicateKey"
    if "validateUser e2 (body req2 ''username'') h' (body req2 ''role'') = Inr u'" for h' u'
  proof -
    from that have "username u' = castString e2 (body req2 ''username'')"
      by (auto simp: validateUser_def split: sum.splits if_splits)
    with n assms(2) have "username u' = username u" by simp
    with taken show ?thesis by (simp add: insertUser_def)
  qed
  then show "register e2 req2 db1 = (db1, Response 400 (Message ''Username sudah ada''))"
    by (auto simp: register_def split: sum.splits)
  from us n vn show "\<exists>u. findById (users db1) (next_oid db) = Some u
             \<and> username u = castString e1 (body req1 ''username'')
             \<and> validName (username u)"
    by (simp add: findById_def)
qed

text \<open>
  Claim C9. For every username: after a registration that succeeded, a second registration
  of the same username, with any password and role, fails with status 400 and the message
  that the username exists, and leaves the store, and with it the record of the first user,
  as it was.
\<close>

theorem register_duplicate_username:
  assumes "register e1 req1 db = (db1, Response 201 m)"
    and "castString e2 (body req2 ''username'') = castString e1 (body req1 ''username'')"
  shows "register e2 req2 db1 = (db1, Response 400 (Message ''Username sudah ada''))
         \<and> (\<exists>u. findById (users db1) (next_oid db) = Some u
                \<and> username u = castString e1 (body req1 ''username'')
                \<and> validName (username u)
                \<and> findById (users (fst (register e2 req2 db1))) (next_oid db) = Some u)"
  using register_twice [OF assms] by auto

theorem register_duplicate_username_witness:
  "register env0
     (post_request [(''username'', Str ''sari''), (''password'', Str ''rahasia''), (''role'', Str ''admin'')])
     (shop 50) =
     ((shop 50)\<lparr>users := [(2, \<lparr>username = Some ''sari'', password = Bcrypt 7 ''rahasia'',
                               role = Some ''admin''\<rparr>)],
        next_oid := 3\<rparr>,
      Response 201 (Message ''User berhasil dibuat''))
   \<and> register (env0\<lparr>salt := 8\<rparr>)
       (post_request [(''username'', Str ''sari''), (''password'', Str ''lain'')])
       ((shop 50)\<lparr>users := [(2, \<lparr>username = Some ''sari'', password = Bcrypt 7 ''rahasia'',
                                 role = Some ''admin''\<rparr>)],
          next_oid := 3\<rparr>) =
     ((shop 50)\<lparr>users := [(2, \<lparr>username = Some ''sari'', password = Bcrypt 7 ''rahasia'',
                               role = Some ''admin''\<rparr>)],
        next_oid := 3\<rparr>,
      Response 400 (Message ''Username sudah ada''))"
proof -
  have first: "register env0
     (post_request [(''username'', Str ''sari''), (''password'', Str ''rahasia''), (''role'', Str ''admin'')])
     (shop 50) =
     ((shop 50)\<lparr>users := [(2, \<lparr>username = Some ''sari'', password = Bcrypt 7 ''rahasia'',
                               role = Some ''admin''\<rparr>)],
        next_oid := 3\<rparr>,
      Response 201 (Message ''User berhasil dibuat''))"
    by (simp add: register_def bcrypt_hash_def validateUser_def validateRole_def insertUser_def
        username_taken_def shop_defs layer_defs)
  have same: "castString (env0\<lparr>salt := 8\<rparr>)
                (body (post_request [(''username'', Str ''sari''), (''password'', Str ''lain'')])
                   ''username'') =
              castString env0
                (body (post_request [(''username'', Str ''sari''), (''password'', Str ''rahasia''),
                                     (''role'', Str ''admin'')]) ''username'')"
    by (simp add: shop_defs layer_defs)
  from register_duplicate_username [OF first same] first
  show ?thesis by simp
qed

section \<open>The session token\<close>

text \<open>
  Claim C3, as stated, fails: no route checks a token. A stock reduction sent with no token,
  or with one that was tampered with, is carried out and changes the store.
\<close>

theorem no_access_gate_counterexample:
  "handle env0 PostReduceStock ((reduce_by 20)\<lparr>authorization := None\<rparr>) (shop 50) =
     (shop 30, Response 200 (StockJson ''Stok dikurangi'' (Fin 30)))
   \<and> handle env0 PostReduceStock ((reduce_by 20)\<lparr>authorization := Some ''tampered''\<rparr>) (shop 50) =
     (shop 30, Response 200 (StockJson ''Stok dikurangi'' (Fin 30)))
   \<and> shop 30 \<noteq> shop 50"
  by (simp add: handler_defs shop_defs layer_defs save_stok_def round_double_ints)

text \<open>
  Claim C3, amended. No mutating operation passes an access control gate: registration,
  creating, updating and deleting a product, reducing a stock, recording a sale, and
  updating and deleting a user never read the session token, so the response and the new
  store are the same for every token, be it valid, malformed, tampered with or absent.
\<close>

theorem handle_ignores_token:
  "handle e r (req\<lparr>authorization := a\<rparr>) db = handle e r req db"
  by (cases r) (simp_all add: handler_defs Let_def cong: sum.case_cong option.case_cong)

theorem handle_ignores_token_witness:
  "handle env0 PutProduct
     ((json_request (Oid 1) [(''harga'', Num (Fin 1)), (''stok'', Num (Fin 1))])\<lparr>authorization := Some ''forged''\<rparr>)
     (shop 50) =
   handle env0 PutProduct (json_request (Oid 1) [(''harga'', Num (Fin 1)), (''stok'', Num (Fin 1))]) (shop 50)"
  using handle_ignores_token
    [of env0 PutProduct "Some ''forged''"
        "json_request (Oid 1) [(''harga'', Num (Fin 1)), (''stok'', Num (Fin 1))]" "shop 50"]
  by simp

section \<open>Stock reduction, many calls\<close>

lemma step_task_nonneg:
  assumes "stocks_nonneg db"
  shows "stocks_nonneg (fst (step_task e t db))"
proof (cases t)
  case (Pending req)
  with assms show ?thesis by (simp split: sum.splits)
next
  case (Loaded req found)
  with reduce_stock_apply_nonneg [OF assms, of e req found] show ?thesis
    by (simp add: case_prod_beta)
next
  case (Finished r)
  with assms show ?thesis by simp
qed

lemma run_nonneg:
  "stocks_nonneg db \<Longrightarrow> stocks_nonneg (fst (run e sched (db, ts)))"
proof (induction sched arbitrary: db ts)
  case Nil
  then show ?case by simp
next
  case (Cons i sched)
  show ?case
  proof (cases "i < length ts")
    case True
    obtain db' t' where st: "step_task e (ts ! i) db = (db', t')"
      by (cases "step_task e (ts ! i) db")
    with step_task_nonneg [OF Cons.prems, of e "ts ! i"] have "stocks_nonneg db'" by simp
    then have "stocks_nonneg (fst (run e sched (db', ts[i := t'])))" by (rule Cons.IH)
    with True st show ?thesis by simp
  next
    case False
    with Cons show ?thesis by simp
  qed
qed

text \<open>A call whose two steps run back to back is the handler run alone.\<close>

lemma run_one_call:
  assumes "k < length ts" and "ts ! k = Pending req"
  shows "run e [k, k] (db, ts) =
           (fst (reduce_stock e req db), ts[k := Finished (snd (reduce_stock e req db))])"
  using assms
  by (auto simp: reduce_stock_def split: sum.splits prod.splits)

text \<open>
  Calls served one after another: the stock left is the stock less the quantities granted,
  it is never negative, and when the quantities sum to at most the stock all are granted.
\<close>

lemma serve_nonneg: "0 \<le> S \<Longrightarrow> 0 \<le> fst (serve S qs)"
  by (induction qs arbitrary: S) (simp_all add: case_prod_beta)

lemma serve_granted: "fst (serve S qs) = S - granted qs (snd (serve S qs))"
  by (induction qs arbitrary: S) (simp_all add: granted_def case_prod_beta)

lemma serve_all:
  "\<forall>q \<in> set qs. 0 \<le> q \<Longrightarrow> sum_list qs \<le> S \<Longrightarrow>
     fst (serve S qs) = S - sum_list qs \<and> list_all (\<lambda>b. b) (snd (serve S qs))"
proof (induction qs arbitrary: S)
  case Nil
  then show ?case by simp
next
  case (Cons q qs)
  from Cons.prems have "0 \<le> sum_list qs" by (simp add: sum_list_nonneg)
  with Cons.prems have le: "q \<le> S" and rest: "sum_list qs \<le> S - q" by simp_all
  from Cons.prems have "\<forall>q \<in> set qs. 0 \<le> q" by simp
  from Cons.IH [OF this rest] le show ?case by (simp add: case_prod_beta)
qed

lemma reduce_all_serve:
  assumes "findById (products db) i = Some p" and "validName (nama p)"
    and "stok p = Fin (of_int S)" and "0 \<le> S" and "S \<le> 2 ^ 53"
    and "\<forall>req \<in> set reqs. params_id req = Oid i"
    and "map (\<lambda>req. Number e (body req ''quantity'')) reqs = map (\<lambda>q. Fin (of_int q)) qs"
    and "\<forall>q \<in> set qs. 0 \<le> q"
  shows "stock_of i (fst (reduce_all e reqs db)) = Some (Fin (of_int (fst (serve S qs))))
         \<and> map succeeded (snd (reduce_all e reqs db)) = snd (serve S qs)"
  using assms
proof (induction reqs arbitrary: db p S qs)
  case Nil
  then show ?case by (simp add: stock_of_def)
next
  case (Cons req reqs)
  from Cons.prems(7) obtain q qs' where qs: "qs = q # qs'"
    and q: "Number e (body req ''quantity'') = Fin (of_int q)"
    and rest: "map (\<lambda>req. Number e (body req ''quantity'')) reqs = map (\<lambda>q. Fin (of_int q)) qs'"
    by (cases qs) auto
  from Cons.prems(6) have i: "params_id req = Oid i"
    and ids: "\<forall>req \<in> set reqs. params_id req = Oid i" by simp_all
  from Cons.prems(8) qs have q0: "0 \<le> q" and nonneg: "\<forall>q \<in> set qs'. 0 \<le> q" by simp_all
  obtain db' r where step: "reduce_stock e req db = (db', r)" by (cases "reduce_stock e req db")
  show ?case
  proof (cases "q \<le> S")
    case True
    then have le: "(of_int q :: rat) \<le> of_int S" by simp
    have bound: "\<bar>S - q\<bar> \<le> 2 ^ 53" using q0 Cons.prems(4,5) True by simp
    have rd: "round_double (of_int S - of_int q) = Fin (of_int (S - q))"
      using round_double_of_int [OF bound] by simp
    from reduce_stock_success [OF i Cons.prems(1,2,3) q le rd] step
    have r: "r = Response 200 (StockJson ''Stok dikurangi'' (Fin (of_int (S - q))))" by simp
    from reduce_stock_success_found [OF i Cons.prems(1,2,3) q le rd] step
    have p': "findById (products db') i = Some (p\<lparr>stok := Fin (of_int (S - q))\<rparr>)" by simp
    have v': "validName (nama (p\<lparr>stok := Fin (of_int (S - q))\<rparr>))" using Cons.prems(2) by simp
    have s': "stok (p\<lparr>stok := Fin (of_int (S - q))\<rparr>) = Fin (of_int (S - q))" by simp
    have S0: "0 \<le> S - q" using True by simp
    have S53: "S - q \<le> 2 ^ 53" using q0 Cons.prems(5) by simp
    from Cons.IH [OF p' v' s' S0 S53 ids rest nonneg]
    have "stock_of i (fst (reduce_all e reqs db')) = Some (Fin (of_int (fst (serve (S - q) qs'))))"
      and "map succeeded (snd (reduce_all e reqs db')) = snd (serve (S - q) qs')" by simp_all
    moreover have "succeeded r" by (simp add: r succeeded_def)
    ultimately show ?thesis using step qs True
      by (simp add: case_prod_beta)
  next
    case False
    then have short: "(of_int S :: rat) < of_int q" by simp
    from reduce_stock_short [OF i Cons.prems(1,3) q short] step
    have db': "db' = db" and r: "r = Response 400 (Message ''Stok tidak cukup'')" by simp_all
    from Cons.IH [OF Cons.prems(1-5) ids rest nonneg]
    have "stock_of i (fst (reduce_all e reqs db)) = Some (Fin (of_int (fst (serve S qs'))))"
      and "map succeeded (snd (reduce_all e reqs db)) = snd (serve S qs')" by simp_all
    moreover have "\<not> succeeded r" by (simp add: r succeeded_def)
    ultimately show ?thesis using step db' qs False
      by (simp add: case_prod_beta)
  qed
qed

text \<open>
  Claim C2, as stated, fails: the check and the decrement are a read and a later write. Two
  calls for one unit each, whose reads both run before either write, both answer 200 on a
  stock of 2 and leave the stock 1, not 0; on a stock of 1 both answer 200 as well, though
  only one of them fits.
\<close>

theorem reduce_stock_lost_update_counterexample:
  "run env0 [0, 1, 0, 1] (shop 2, [Pending (reduce_by 1), Pending (reduce_by 1)]) =
     (shop 1, [Finished (Response 200 (StockJson ''Stok dikurangi'' (Fin 1))),
               Finished (Response 200 (StockJson ''Stok dikurangi'' (Fin 1)))])
   \<and> run env0 [0, 1, 0, 1] (shop 1, [Pending (reduce_by 1), Pending (reduce_by 1)]) =
     (shop 0, [Finished (Response 200 (StockJson ''Stok dikurangi'' (Fin 0))),
               Finished (Response 200 (StockJson ''Stok dikurangi'' (Fin 0)))])"
  by (simp add: reduce_stock_find_def reduce_stock_apply_def save_stok_def Let_def
      shop_defs layer_defs round_double_ints)

text \<open>
  Claim C2, amended. \<open>reduce_stock\<close> is a read followed by a separate write. When the calls
  on a product with a valid name and an integer stock \<open>S\<close> between 0 and \<open>2\<^sup>5\<^sup>3\<close> run one after
  another, with integer quantities \<open>q\<^sub>1 \<dots> q\<^sub>N\<close> that are not negative: a call succeeds exactly
  when its quantity does not exceed the stock left by the calls before it, the final stock is
  \<open>S\<close> less the quantities of the calls that succeeded and is never negative, and when the
  quantities sum to at most \<open>S\<close> every call succeeds and the final stock is \<open>S\<close> less their
  sum. Under every interleaving of the reads and writes of calls in flight, stocks that were
  non-negative stay non-negative.
\<close>

theorem reduce_stock_calls:
  "(findById (products db) i = Some p \<and> validName (nama p) \<and> stok p = Fin (of_int S)
      \<and> 0 \<le> S \<and> S \<le> 2 ^ 53
      \<and> (\<forall>req \<in> set reqs. params_id req = Oid i)
      \<and> map (\<lambda>req. Number e (body req ''quantity'')) reqs = map (\<lambda>q. Fin (of_int q)) qs
      \<and> (\<forall>q \<in> set qs. 0 \<le> q) \<longrightarrow>
      stock_of i (fst (reduce_all e reqs db)) = Some (Fin (of_int (fst (serve S qs))))
      \<and> map succeeded (snd (reduce_all e reqs db)) = snd (serve S qs)
      \<and> fst (serve S qs) = S - granted qs (snd (serve S qs))
      \<and> 0 \<le> fst (serve S qs)
      \<and> (sum_list qs \<le> S \<longrightarrow>
           stock_of i (fst (reduce_all e reqs db)) = Some (Fin (of_int (S - sum_list qs)))
           \<and> list_all succeeded (snd (reduce_all e reqs db))))
   \<and> (stocks_nonneg db \<longrightarrow> stocks_nonneg (fst (run e sched (db, ts))))"
proof (intro conjI impI)
  assume a: "findById (products db) i = Some p \<and> validName (nama p) \<and> stok p = Fin (of_int S)
      \<and> 0 \<le> S \<and> S \<le> 2 ^ 53
      \<and> (\<forall>req \<in> set reqs. params_id req = Oid i)
      \<and> map (\<lambda>req. Number e (body req ''quantity'')) reqs = map (\<lambda>q. Fin (of_int q)) qs
      \<and> (\<forall>q \<in> set qs. 0 \<le> q)"
  then have a1: "findById (products db) i = Some p" and a2: "validName (nama p)"
    and a3: "stok p = Fin (of_int S)" and a4: "0 \<le> S" and a5: "S \<le> 2 ^ 53"
    and a6: "\<forall>req \<in> set reqs. params_id req = Oid i"
    and a7: "map (\<lambda>req. Number e (body req ''quantity'')) reqs = map (\<lambda>q. Fin (of_int q)) qs"
    and a8: "\<forall>q \<in> set qs. 0 \<le> q"
    by blast+
  have main: "stock_of i (fst (reduce_all e reqs db)) = Some (Fin (of_int (fst (serve S qs))))
         \<and> map succeeded (snd (reduce_all e reqs db)) = snd (serve S qs)"
    by (rule reduce_all_serve [OF a1 a2 a3 a4 a5 a6 a7 a8])
  from main show "stock_of i (fst (reduce_all e reqs db)) = Some (Fin (of_int (fst (serve S qs))))"
    by simp
  from main show ms: "map succeeded (snd (reduce_all e reqs db)) = snd (serve S qs)" by simp
  show "fst (serve S qs) = S - granted qs (snd (serve S qs))" by (rule serve_granted)
  from a4 show "0 \<le> fst (serve S qs)" by (rule serve_nonneg)
  {
    assume sum: "sum_list qs \<le> S"
    from serve_all [OF a8 sum]
    have f: "fst (serve S qs) = S - sum_list qs" and all: "list_all (\<lambda>b. b) (snd (serve S qs))"
      by simp_all
    from main f
    show "stock_of i (fst (reduce_all e reqs db)) = Some (Fin (of_int (S - sum_list qs)))"
      by simp
    from all ms have "list_all (\<lambda>b. b) (map succeeded (snd (reduce_all e reqs db)))" by simp
    then show "list_all succeeded (snd (reduce_all e reqs db))"
      by (simp add: list_all_iff)
  }
next
  assume "stocks_nonneg db"
  then show "stocks_nonneg (fst (run e sched (db, ts)))" by (rule run_nonneg)
qed

theorem reduce_stock_calls_witness:
  "stock_of 1 (fst (reduce_all env0 [reduce_by 20, reduce_by 40, reduce_by 30] (shop 50))) =
     Some (Fin 0)
   \<and> map succeeded (snd (reduce_all env0 [reduce_by 20, reduce_by 40, reduce_by 30] (shop 50))) =
     [True, False, True]
   \<and> stock_of 1 (fst (reduce_all env0 [reduce_by 20, reduce_by 30] (shop 50))) = Some (Fin 0)
   \<and> list_all succeeded (snd (reduce_all env0 [reduce_by 20, reduce_by 30] (shop 50)))
   \<and> stocks_nonneg
       (fst (run env0 [0, 1, 0, 1] (shop 50, [Pending (reduce_by 20), Pending (reduce_by 30)])))"
proof -
  have p: "findById (products (shop 50)) 1 = Some (apple 50)" by (simp add: shop_defs layer_defs)
  have v: "validName (nama (apple 50))" by (simp add: apple_def validName_def)
  have s: "stok (apple 50) = Fin (of_int 50)" by (simp add: apple_def)
  have ids3: "\<forall>req \<in> set [reduce_by 20, reduce_by 40, reduce_by 30]. params_id req = Oid 1"
    and ids2: "\<forall>req \<in> set [reduce_by 20, reduce_by 30]. params_id req = Oid 1"
    by (simp_all add: shop_defs)
  have q3: "map (\<lambda>req. Number env0 (body req ''quantity'')) [reduce_by 20, reduce_by 40, reduce_by 30] =
          map (\<lambda>q. Fin (of_int q)) [20, 40, 30]"
    and q2: "map (\<lambda>req. Number env0 (body req ''quantity'')) [reduce_by 20, reduce_by 30] =
          map (\<lambda>q. Fin (of_int q)) [20, 30]"
    by (simp_all add: shop_defs layer_defs)
  have n3: "\<forall>q \<in> set [20, 40, 30 :: int]. 0 \<le> q" and n2: "\<forall>q \<in> set [20, 30 :: int]. 0 \<le> q"
    by simp_all
  have b: "(0::int) \<le> 50" "(50::int) \<le> 2 ^ 53" by simp_all
  have sum: "sum_list [20, 30 :: int] \<le> 50" by simp
  have inv: "stocks_nonneg (shop 50)" by (simp add: stocks_nonneg_def nonneg_def shop_defs)
  have sv: "serve 50 [20, 40, 30] = (0, [True, False, True])" by simp
  note t3 = reduce_stock_calls
    [of "shop 50" 1 "apple 50" 50 "[reduce_by 20, reduce_by 40, reduce_by 30]" env0 "[20, 40, 30]",
     THEN conjunct1, rule_format, OF conjI [OF p conjI [OF v conjI [OF s conjI [OF b(1) conjI [OF b(2)
       conjI [OF ids3 conjI [OF q3 n3]]]]]]]]
  note t2 = reduce_stock_calls
    [of "shop 50" 1 "apple 50" 50 "[reduce_by 20, reduce_by 30]" env0 "[20, 30]",
     THEN conjunct1, rule_format, OF conjI [OF p conjI [OF v conjI [OF s conjI [OF b(1) conjI [OF b(2)
       conjI [OF ids2 conjI [OF q2 n2]]]]]]]]
  note tr = reduce_stock_calls
    [of "shop 50" _ _ _ _ env0 _ "[0, 1, 0, 1]" "[Pending (reduce_by 20), Pending (reduce_by 30)]",
     THEN conjunct2, rule_format, OF inv]
  have a1: "stock_of 1 (fst (reduce_all env0 [reduce_by 20, reduce_by 40, reduce_by 30] (shop 50))) =
     Some (Fin 0)"
    using t3 by (simp only: sv fst_conv of_int_0)
  have a2: "map succeeded (snd (reduce_all env0 [reduce_by 20, reduce_by 40, reduce_by 30] (shop 50))) =
     [True, False, True]"
    using t3 by (simp only: sv snd_conv)
  have a3: "stock_of 1 (fst (reduce_all env0 [reduce_by 20, reduce_by 30] (shop 50))) = Some (Fin 0)"
    using t2 sum by simp
  have a4: "list_all succeeded (snd (reduce_all env0 [reduce_by 20, reduce_by 30] (shop 50)))"
    using t2 sum by simp
  from a1 a2 a3 a4 tr show ?thesis by (intro conjI)
qed

end
